theory Spec2Isabelle
  imports Main "HOL-Library.Sublist"
begin

unbundle bit_operations_syntax

section \<open>Syntax tables (syntax.h)\<close>

text \<open>
  A \<open>std::string\<close> is a \<^typ>\<open>string\<close> (a list of 8-bit characters).  Reading
  \<open>str[i]\<close> at \<open>i = str.size()\<close> yields the terminating NUL character; the source
  never reads further than that.
\<close>

definition NUL :: char where
  "NUL = CHR 0x00"

definition charAt :: "string \<Rightarrow> nat \<Rightarrow> char" where
  "charAt str i = (if i < length str then str ! i else NUL)"

text \<open>\<open>std::string::substr(pos, n)\<close> for \<open>pos \<le> size()\<close>.\<close>

definition substr :: "string \<Rightarrow> nat \<Rightarrow> nat \<Rightarrow> string" where
  "substr str pos n = take n (drop pos str)"

definition isWsp :: "char \<Rightarrow> bool" where
  "isWsp c = (c = CHR '' '' \<or> c = CHR 0x09 \<or> c = CHR 0x0D \<or> c = CHR 0x0A)"

text \<open>The \<open>switch\<close> on the length followed by the comparisons, in source order.\<close>

definition isKwy :: "string \<Rightarrow> bool" where
  "isKwy str =
    (if str = [] then False
     else if length str = 2 then
       (if str = ''if'' then True else if str = ''fn'' then True
        else if str = ''in'' then True else False)
     else if length str = 3 then
       (if str = ''for'' then True else if str = ''let'' then True
        else if str = ''cls'' then True else if str = ''rec'' then True
        else if str = ''pub'' then True else if str = ''pri'' then True
        else if str = ''pro'' then True else False)
     else if length str = 4 then
       (if str = ''elif'' then True else if str = ''else'' then True
        else if str = ''case'' then True else if str = ''this'' then True
        else if str = ''null'' then True else if str = ''true'' then True
        else False)
     else if length str = 5 then
       (if str = ''while'' then True else if str = ''break'' then True
        else if str = ''const'' then True else if str = ''init'' then True
        else if str = ''false'' then True else False)
     else if length str = 6 then
       (if str = ''return'' then True else if str = ''switch'' then True
        else False)
     else if length str = 7 then (if str = ''default'' then True else False)
     else if length str = 8 then (if str = ''continue'' then True else False)
     else False)"

text \<open>
  \<open>opLen\<close>: the result type is \<open>uint8_t\<close>; \<open>return false\<close> is 0.  Each
  single-character case ends in \<open>return str[1] == '\0' ? 1 : 0\<close>.
\<close>

definition single :: "char \<Rightarrow> nat" where
  "single c1 = (if c1 = NUL then 1 else 0)"

definition opLen :: "string \<Rightarrow> nat" where
  "opLen str =
    (if str = [] then 0
     else
       let c0 = charAt str 0; c1 = charAt str 1 in
       if c0 = CHR ''+'' then
         (if c1 = CHR ''='' then 2 else if c1 = CHR ''+'' then 2 else single c1)
       else if c0 = CHR ''-'' then
         (if c1 = CHR ''='' then 2 else if c1 = CHR ''-'' then 2 else single c1)
       else if c0 = CHR ''*'' then
         (if c1 = CHR ''='' then 2 else if c1 = CHR ''*'' then 2 else single c1)
       else if c0 = CHR ''/'' then
         (if c1 = CHR ''='' then 2 else single c1)
       else if c0 = CHR ''%'' then
         (if c1 = CHR ''%'' then 2 else single c1)
       else if c0 = CHR ''='' then
         (if c1 = CHR ''='' then 2 else single c1)
       else if c0 = CHR ''!'' then
         (if c1 = CHR ''='' then 2 else single c1)
       else if c0 = CHR ''<'' then
         (if c1 = CHR ''='' then 2 else if c1 = CHR ''<'' then 2 else single c1)
       else if c0 = CHR ''>'' then
         (if c1 = CHR ''='' then 2 else if c1 = CHR ''>'' then 2 else single c1)
       else if c0 = CHR ''.'' then
         (if c1 = CHR ''.'' then 2 else if c1 = CHR ''='' then 2 else single c1)
       else if c0 = CHR ''&'' then
         (if c1 = CHR ''&'' then 2 else single c1)
       else if c0 = CHR ''|'' then
         (if c1 = CHR ''|'' then 2 else single c1)
       else if c0 = CHR ''?'' then
         (if c1 = CHR ''?'' then 2 else single c1)
       else if c0 = CHR ''^'' \<or> c0 = CHR ''~'' then single c1
       else 0)"

definition isOp :: "string \<Rightarrow> bool" where
  "isOp str = (opLen str \<noteq> 0)"

definition isDel :: "string \<Rightarrow> bool" where
  "isDel str =
    (if str = [] then False
     else charAt str 0 \<in> set ''()[]{}:;.,'')"

text \<open>The operator sets as the specification lists them.\<close>

definition twoCharOps :: "string list" where
  "twoCharOps =
    [''+='', ''++'', ''-='', ''--'', ''*='', ''**'', ''/='', ''%%'', ''=='', ''!='',
     ''<='', ''<<'', ''>='', ''>>'', ''..'', ''.='', ''&&'', ''||'', ''??'']"

definition oneCharOps :: "char list" where
  "oneCharOps = ''+-*/%=!<>.&|?^~''"

section \<open>Type model (type.h)\<close>

datatype TypeKind =
  TyNone | TyVoid | TyNull | TyBoolean
  | TyI8 | TyI16 | TyI32 | TyI64 | TyI128
  | TyU8 | TyU16 | TyU32 | TyU64 | TyU128
  | TyF16 | TyF32 | TyF64 | TyF128
  | TyString | TyCharacter | TyArray | TyClass | TyRecord | TyVariable | TyFunction

text \<open>
  \<open>class Type\<close>: a kind and a name.  Every \<open>Type\<close> the analyzer handles is passed
  by value, so a derived object (Variable, Function, Record, Class) is sliced to these two
  fields whenever it is used as a \<open>Type\<close>.
\<close>

record Type =
  ty_kind :: TypeKind
  ty_name :: string

definition mkType :: "TypeKind \<Rightarrow> string \<Rightarrow> Type" where
  "mkType k n = \<lparr>ty_kind = k, ty_name = n\<rparr>"

definition isValid :: "Type \<Rightarrow> bool" where
  "isValid t = (ty_name t \<noteq> [] \<and> ty_kind t \<noteq> TyNone)"

text \<open>\<open>Type::size\<close>: \<open>F16\<close> has no case of its own and falls to \<open>default\<close>.\<close>

definition size_of :: "Type \<Rightarrow> int" where
  "size_of t =
    (case ty_kind t of
       TyI8 \<Rightarrow> 1 | TyU8 \<Rightarrow> 1 | TyBoolean \<Rightarrow> 1 | TyCharacter \<Rightarrow> 1
     | TyI16 \<Rightarrow> 2 | TyU16 \<Rightarrow> 2
     | TyI32 \<Rightarrow> 4 | TyU32 \<Rightarrow> 4 | TyF32 \<Rightarrow> 4
     | TyI64 \<Rightarrow> 8 | TyU64 \<Rightarrow> 8 | TyF64 \<Rightarrow> 8
     | TyI128 \<Rightarrow> 16 | TyU128 \<Rightarrow> 16 | TyF128 \<Rightarrow> 16
     | _ \<Rightarrow> 0)"

definition isSimilarTo :: "Type \<Rightarrow> Type \<Rightarrow> bool" where
  "isSimilarTo t other = (ty_kind t = ty_kind other)"

definition isInteger :: "Type \<Rightarrow> bool" where
  "isInteger t =
    (ty_kind t = TyI8 \<or> ty_kind t = TyI16 \<or> ty_kind t = TyI32 \<or> ty_kind t = TyI64 \<or>
     ty_kind t = TyI128 \<or> ty_kind t = TyU8 \<or> ty_kind t = TyU16 \<or> ty_kind t = TyU32 \<or>
     ty_kind t = TyU64 \<or> ty_kind t = TyU128)"

definition isFloatingPoint :: "Type \<Rightarrow> bool" where
  "isFloatingPoint t =
    (ty_kind t = TyF16 \<or> ty_kind t = TyF32 \<or> ty_kind t = TyF64 \<or> ty_kind t = TyF128)"

definition isNumeric :: "Type \<Rightarrow> bool" where
  "isNumeric t = (isInteger t \<or> isFloatingPoint t)"

definition isTruthy :: "Type \<Rightarrow> bool" where
  "isTruthy t = (ty_kind t \<noteq> TyNone \<and> ty_kind t \<noteq> TyVoid \<and> ty_kind t \<noteq> TyNull)"

definition isVoid :: "Type \<Rightarrow> bool" where
  "isVoid t = (ty_kind t = TyVoid)"

definition isNull :: "Type \<Rightarrow> bool" where
  "isNull t = (ty_kind t = TyNull)"

definition isPrimitive :: "Type \<Rightarrow> bool" where
  "isPrimitive t =
    (isInteger t \<or> isFloatingPoint t \<or> ty_kind t = TyBoolean \<or> ty_kind t = TyCharacter)"

text \<open>\<open>Type::operator==\<close> compares the names only.\<close>

definition type_eq :: "Type \<Rightarrow> Type \<Rightarrow> bool" where
  "type_eq t other = (ty_name t = ty_name other)"

definition none_ty :: Type where "none_ty = mkType TyNone ''none''"
definition void_ty :: Type where "void_ty = mkType TyVoid ''void''"
definition null_ty :: Type where "null_ty = mkType TyNull ''null''"
definition bool_ty :: Type where "bool_ty = mkType TyBoolean ''bool''"
definition i8_ty :: Type where "i8_ty = mkType TyI8 ''i8''"
definition i16_ty :: Type where "i16_ty = mkType TyI16 ''i16''"
definition i32_ty :: Type where "i32_ty = mkType TyI32 ''i32''"
definition i64_ty :: Type where "i64_ty = mkType TyI64 ''i64''"
definition i128_ty :: Type where "i128_ty = mkType TyI128 ''i128''"
definition u8_ty :: Type where "u8_ty = mkType TyU8 ''u8''"
definition u16_ty :: Type where "u16_ty = mkType TyU16 ''u16''"
definition u32_ty :: Type where "u32_ty = mkType TyU32 ''u32''"
definition u64_ty :: Type where "u64_ty = mkType TyU64 ''u64''"
definition u128_ty :: Type where "u128_ty = mkType TyU128 ''u128''"
definition f16_ty :: Type where "f16_ty = mkType TyF16 ''f16''"
definition f32_ty :: Type where "f32_ty = mkType TyF32 ''f32''"
definition f64_ty :: Type where "f64_ty = mkType TyF64 ''f64''"
definition f128_ty :: Type where "f128_ty = mkType TyF128 ''f128''"
definition char_ty :: Type where "char_ty = mkType TyCharacter ''char''"
definition string_ty :: Type where "string_ty = mkType TyString ''str''"

lemmas prim_ty_defs =
  none_ty_def void_ty_def null_ty_def bool_ty_def i8_ty_def i16_ty_def i32_ty_def
  i64_ty_def i128_ty_def u8_ty_def u16_ty_def u32_ty_def u64_ty_def u128_ty_def
  f16_ty_def f32_ty_def f64_ty_def f128_ty_def char_ty_def string_ty_def mkType_def

definition promoteTypes :: "Type \<Rightarrow> Type \<Rightarrow> Type" where
  "promoteTypes a b =
    (if isSimilarTo a b then a
     else if isFloatingPoint a \<and> isFloatingPoint b then
       (if size_of a \<ge> size_of b then a else b)
     else if isInteger a \<and> isInteger b then
       (if size_of a \<ge> size_of b then a else b)
     else if isFloatingPoint a \<and> isInteger b then a
     else if isInteger a \<and> isFloatingPoint b then b
     else none_ty)"

definition canAssignType :: "Type \<Rightarrow> Type \<Rightarrow> bool" where
  "canAssignType to from =
    (if isSimilarTo to from then True
     else if isFloatingPoint to \<and> isInteger from then True
     else if isInteger to \<and> isInteger from \<and> size_of from \<le> size_of to then True
     else False)"

section \<open>Source positions, diagnostics and tokens (locus.h, error.h, token.h)\<close>

text \<open>
  The three \<open>uint64_t\<close> fields of a \<open>Locus\<close> are natural numbers: the index never
  exceeds the length of the source and line and column are at most one more than it, so
  no arithmetic on them wraps.
\<close>

record Locus =
  line :: nat
  column :: nat
  index :: nat

definition mkLocus :: "nat \<Rightarrow> nat \<Rightarrow> nat \<Rightarrow> Locus" where
  "mkLocus l c i = \<lparr>line = l, column = c, index = i\<rparr>"

datatype ErrorLevel = Info | Warning | Error | Fatal

text \<open>
  A \<open>basic::Error\<close>: level, description and the span it is anchored to (the help text,
  the file label and the copy of the source are not needed by any property below).
\<close>

record Diagnostic =
  level :: ErrorLevel
  description :: string
  err_start :: Locus
  err_end :: Locus

definition mkError :: "ErrorLevel \<Rightarrow> string \<Rightarrow> Locus \<Rightarrow> Locus \<Rightarrow> Diagnostic" where
  "mkError lv d s e = \<lparr>level = lv, description = d, err_start = s, err_end = e\<rparr>"

datatype TokenKind =
  TokNone | TokInteger | TokFloat | TokBoolean | TokCharacter | TokString
  | TokIdentifier | TokKeyword | TokOperator | TokDelimiter | TokEof

record Token =
  tok_kind :: TokenKind
  tok_value :: string
  tok_start :: Locus
  tok_end :: Locus

definition mkToken :: "TokenKind \<Rightarrow> string \<Rightarrow> Locus \<Rightarrow> Locus \<Rightarrow> Token" where
  "mkToken k v s e = \<lparr>tok_kind = k, tok_value = v, tok_start = s, tok_end = e\<rparr>"

section \<open>Lexer (lexer.h, lexer.cpp)\<close>

text \<open>
  The lexer object with its three caches and their dirty flags.  \<open>logged\<close> is the
  sequence of diagnostics that \<open>err.log()\<close> has written to the error stream, oldest
  first.  Every method takes the object and returns it updated, next to its result.
\<close>

record Lexer =
  source :: string
  cached_peek :: char
  peek_dirty :: bool
  cached_look :: string
  look_dirty :: bool
  cached_value :: string
  value_dirty :: bool
  start :: Locus
  current :: Locus
  logged :: "Diagnostic list"

text \<open>
  \<open>std::isalpha\<close>, \<open>std::isdigit\<close> and \<open>std::isalnum\<close> in the default "C" locale:
  only ASCII letters and digits qualify, and no byte above 127 does.
\<close>

definition isalpha :: "char \<Rightarrow> bool" where
  "isalpha c =
    (let n = (of_char c :: nat) in (65 \<le> n \<and> n \<le> 90) \<or> (97 \<le> n \<and> n \<le> 122))"

definition isdigit :: "char \<Rightarrow> bool" where
  "isdigit c = (let n = (of_char c :: nat) in 48 \<le> n \<and> n \<le> 57)"

definition isalnum :: "char \<Rightarrow> bool" where
  "isalnum c = (isalpha c \<or> isdigit c)"

definition Lexer_isEof :: "Lexer \<Rightarrow> bool" where
  "Lexer_isEof l = (index (current l) \<ge> length (source l))"

text \<open>
  \<open>Lexer::value\<close>.  The cache is refreshed only when an \<open>advance\<close> has marked it
  dirty; \<open>ignore\<close> moves \<open>start\<close> without doing so.
\<close>

definition Lexer_value :: "Lexer \<Rightarrow> string \<times> Lexer" where
  "Lexer_value l =
    (if \<not> value_dirty l then (cached_value l, l)
     else
       let v = substr (source l) (index (start l)) (index (current l) - index (start l))
       in (v, l\<lparr>cached_value := v, value_dirty := False\<rparr>))"

definition Lexer_look :: "Lexer \<Rightarrow> string \<times> Lexer" where
  "Lexer_look l =
    (if \<not> look_dirty l then (cached_look l, l)
     else
       let v = substr (source l) (index (current l)) 1
       in (v, l\<lparr>cached_look := v, look_dirty := False\<rparr>))"

definition Lexer_peek :: "Lexer \<Rightarrow> char \<times> Lexer" where
  "Lexer_peek l =
    (if \<not> peek_dirty l then (cached_peek l, l)
     else if Lexer_isEof l then (NUL, l)
     else
       let c = source l ! index (current l)
       in (c, l\<lparr>cached_peek := c, peek_dirty := False\<rparr>))"

definition Lexer_advance :: "Lexer \<Rightarrow> char \<times> Lexer" where
  "Lexer_advance l =
    (if Lexer_isEof l then (NUL, l)
     else
       let current_char = source l ! index (current l);
           cur = current l;
           cur1 = cur\<lparr>index := index cur + 1\<rparr>;
           cur2 = (if current_char = CHR 0x0A
                   then cur1\<lparr>column := 1, line := line cur1 + 1\<rparr>
                   else cur1\<lparr>column := column cur1 + 1\<rparr>)
       in Lexer_peek
            (l\<lparr>peek_dirty := True, look_dirty := True, value_dirty := True,
               current := cur2\<rparr>))"

text \<open>\<open>Lexer::take\<close>: the \<open>while\<close> loop, one unfolding per iteration.\<close>

function Lexer_take :: "(char \<Rightarrow> bool) \<Rightarrow> Lexer \<Rightarrow> Lexer" where
  "Lexer_take predicate l =
    (case Lexer_peek l of
       (c, l1) \<Rightarrow>
         if predicate c then
           (if Lexer_isEof l1 then l1 else Lexer_take predicate (snd (Lexer_advance l1)))
         else l1)"
  by pat_completeness auto
termination
  apply (relation "measure (\<lambda>(p, l). length (source l) - index (current l))")
   apply simp
  apply (auto simp: Lexer_peek_def Lexer_advance_def Lexer_isEof_def Let_def
      split: if_splits)
  done

declare Lexer_take.simps [simp del]

definition Lexer_ignore :: "Lexer \<Rightarrow> Lexer" where
  "Lexer_ignore l = l\<lparr>start := current l\<rparr>"

definition Lexer_makeToken :: "TokenKind \<Rightarrow> Lexer \<Rightarrow> Token \<times> Lexer" where
  "Lexer_makeToken kind l =
    (case Lexer_value l of
       (v, l1) \<Rightarrow>
         let st = start l1; l2 = Lexer_ignore l1
         in (mkToken kind v st (current l2), l2))"

text \<open>
  The six token rules return \<open>nullptr\<close> (\<open>None\<close>) when they do not apply.
\<close>

definition lexAlpha :: "Lexer \<Rightarrow> Token option \<times> Lexer" where
  "lexAlpha l =
    (case Lexer_peek l of
       (c, l1) \<Rightarrow>
         if isalpha c \<or> c = CHR ''_'' then
           (let l2 = Lexer_take (\<lambda>c. isalnum c \<or> c = CHR ''_'') l1 in
            case Lexer_value l2 of
              (v, l3) \<Rightarrow>
                if isKwy v then map_prod Some id (Lexer_makeToken TokKeyword l3)
                else map_prod Some id (Lexer_makeToken TokIdentifier l3))
         else (None, l1))"

definition lexNumeric :: "Lexer \<Rightarrow> Token option \<times> Lexer" where
  "lexNumeric l =
    (case Lexer_peek l of
       (c, l1) \<Rightarrow>
         if isdigit c then
           (let l2 = Lexer_take isdigit l1 in
            case Lexer_peek l2 of
              (d, l3) \<Rightarrow>
                if d = CHR ''.'' then
                  (if index (current l3) + 1 < length (source l3) \<and>
                      source l3 ! (index (current l3) + 1) = CHR ''.''
                   then map_prod Some id (Lexer_makeToken TokInteger l3)
                   else
                     let l4 = snd (Lexer_advance l3);
                         l5 = Lexer_take isdigit l4
                     in map_prod Some id (Lexer_makeToken TokFloat l5))
                else map_prod Some id (Lexer_makeToken TokInteger l3))
         else (None, l1))"

definition Lexer_log :: "Diagnostic \<Rightarrow> Lexer \<Rightarrow> Lexer" where
  "Lexer_log e l = l\<lparr>logged := logged l @ [e]\<rparr>"

text \<open>
  \<open>lexCharacter\<close> after the opening quote: first the statement that consumes the
  content (an escape, a single character, or the "empty literal" diagnostic), then the
  statement that consumes the closing quote or reports its absence.
\<close>

definition lexCharacter_content :: "Lexer \<Rightarrow> Lexer" where
  "lexCharacter_content l =
    (case Lexer_peek l of
       (c, l1) \<Rightarrow>
         if c = CHR 0x5C then snd (Lexer_advance (snd (Lexer_advance l1)))
         else
           (case Lexer_peek l1 of
              (c2, l2) \<Rightarrow>
                if c2 \<noteq> CHR 0x27 then snd (Lexer_advance l2)
                else Lexer_log
                       (mkError Error ''Empty character literal'' (start l2) (start l2)) l2))"

definition lexCharacter_closing :: "Lexer \<Rightarrow> Lexer" where
  "lexCharacter_closing l =
    (case Lexer_peek l of
       (c, l1) \<Rightarrow>
         if c \<noteq> CHR 0x27 then
           Lexer_log
             (mkError Error ''Unterminated character literal'' (start l1) (start l1)) l1
         else snd (Lexer_advance l1))"

definition lexCharacter :: "Lexer \<Rightarrow> Token option \<times> Lexer" where
  "lexCharacter l =
    (case Lexer_peek l of
       (c, l1) \<Rightarrow>
         if c = CHR 0x27 then
           (let l2 = snd (Lexer_advance l1);
                l3 = lexCharacter_content l2;
                l4 = lexCharacter_closing l3
            in map_prod Some id (Lexer_makeToken TokCharacter l4))
         else (None, l1))"

text \<open>The \<open>while (peek() != '"')\<close> loop of \<open>lexString\<close>.\<close>

function lexString_loop :: "Lexer \<Rightarrow> Lexer" where
  "lexString_loop l =
    (case Lexer_peek l of
       (c, l1) \<Rightarrow>
         if c \<noteq> CHR 0x22 then
           (if Lexer_isEof l1 then
              Lexer_log (mkError Error ''Unterminated string literal'' (start l1) (start l1)) l1
            else lexString_loop (snd (Lexer_advance l1)))
         else l1)"
  by pat_completeness auto
termination
  apply (relation "measure (\<lambda>l. length (source l) - index (current l))")
   apply simp
  apply (auto simp: Lexer_peek_def Lexer_advance_def Lexer_isEof_def Let_def
      split: if_splits)
  done

declare lexString_loop.simps [simp del]

definition lexString :: "Lexer \<Rightarrow> Token option \<times> Lexer" where
  "lexString l =
    (case Lexer_peek l of
       (c, l1) \<Rightarrow>
         if c = CHR 0x22 then
           (let l2 = snd (Lexer_advance l1);
                l3 = lexString_loop l2;
                l4 = snd (Lexer_advance l3)
            in map_prod Some id (Lexer_makeToken TokString l4))
         else (None, l1))"

definition lexOperator :: "Lexer \<Rightarrow> Token option \<times> Lexer" where
  "lexOperator l =
    (case Lexer_look l of
       (s, l1) \<Rightarrow>
         if isOp s then
           (let l2 = snd (Lexer_advance l1);
                (v, l3) = Lexer_value l2;
                (c, l4) = Lexer_peek l3;
                l5 = (if isOp (v @ [c]) then snd (Lexer_advance l4) else l4)
            in map_prod Some id (Lexer_makeToken TokOperator l5))
         else (None, l1))"

definition lexDelimiter :: "Lexer \<Rightarrow> Token option \<times> Lexer" where
  "lexDelimiter l =
    (case Lexer_look l of
       (s, l1) \<Rightarrow>
         if isDel s then
           map_prod Some id (Lexer_makeToken TokDelimiter (snd (Lexer_advance l1)))
         else (None, l1))"

text \<open>\<open>Lexer::next\<close>: the rules are tried in order; the first that applies wins.\<close>

definition orElse ::
  "(Lexer \<Rightarrow> Token option \<times> Lexer) \<Rightarrow> (Lexer \<Rightarrow> Token \<times> Lexer) \<Rightarrow>
   Lexer \<Rightarrow> Token \<times> Lexer" where
  "orElse rule rest l = (case rule l of (Some t, l1) \<Rightarrow> (t, l1) | (None, l1) \<Rightarrow> rest l1)"

definition Lexer_next :: "Lexer \<Rightarrow> Token \<times> Lexer" where
  "Lexer_next l =
    (let l1 = Lexer_ignore (Lexer_take isWsp l) in
     if Lexer_isEof l1 then (mkToken TokEof [] (current l1) (current l1), l1)
     else
       orElse lexAlpha
         (orElse lexNumeric
           (orElse lexCharacter
             (orElse lexString
               (orElse lexOperator
                 (orElse lexDelimiter (Lexer_makeToken TokNone)))))) l1)"

definition Lexer_reset :: "Lexer \<Rightarrow> Lexer" where
  "Lexer_reset l =
    l\<lparr>current := mkLocus 1 1 0, start := mkLocus 1 1 0,
      peek_dirty := True, look_dirty := True, value_dirty := True\<rparr>"

text \<open>
  The \<open>while (true)\<close> loop of \<open>Lexer::lex\<close>.  Nothing in its text bounds the number of
  iterations, so the model is a partial function: \<open>None\<close> stands for a loop that never
  ends.
\<close>

partial_function (option) lex_loop :: "Lexer \<Rightarrow> (Token list \<times> Lexer) option" where
  "lex_loop l =
    (case Lexer_next l of
       (next, l1) \<Rightarrow>
         if tok_kind next = TokEof \<or> tok_kind next = TokNone then Some ([next], l1)
         else Option.bind (lex_loop l1) (\<lambda>(tokens, l2). Some (next # tokens, l2)))"

declare lex_loop.simps [code]

definition Lexer_lex :: "Lexer \<Rightarrow> string \<Rightarrow> (Token list \<times> Lexer) option" where
  "Lexer_lex l src = lex_loop (Lexer_reset (l\<lparr>source := src\<rparr>))"

text \<open>\<open>explicit Lexer(const std::string source)\<close> with the default member initialisers.\<close>

definition new_Lexer :: "string \<Rightarrow> Lexer" where
  "new_Lexer src =
    \<lparr>source = src, cached_peek = NUL, peek_dirty = True, cached_look = [],
     look_dirty = True, cached_value = [], value_dirty = True,
     start = mkLocus 0 0 0, current = mkLocus 1 1 0, logged = []\<rparr>"

subsection \<open>Predicates used in the lexer proofs\<close>






text \<open>
  The invariant of the lexer object between calls: the cursor is inside the source or
  at its end, and a cache that is not marked dirty holds what a fresh read would give.
\<close>

definition coherent :: "Lexer \<Rightarrow> bool" where
  "coherent l =
    (index (current l) \<le> length (source l) \<and>
     (peek_dirty l \<or>
      (index (current l) < length (source l) \<and>
       cached_peek l = source l ! index (current l))) \<and>
     (look_dirty l \<or> cached_look l = substr (source l) (index (current l)) 1))"


section \<open>Accessors, modifiers and flags (accessor.h, modifier.h, flags.h)\<close>

datatype Accessor = Public | Private | Protected

definition isacc :: "string \<Rightarrow> bool" where
  "isacc str = (str = ''pub'' \<or> str = ''pri'' \<or> str = ''pro'')"

definition getacc :: "string \<Rightarrow> Accessor" where
  "getacc str =
    (if str = ''pub'' then Public else if str = ''pri'' then Private
     else if str = ''pro'' then Protected else Private)"

definition canAccess :: "Accessor \<Rightarrow> Accessor \<Rightarrow> bool" where
  "canAccess member_acc accessor_acc =
    (if member_acc = Public then True
     else if member_acc = Private then accessor_acc = Private
     else if member_acc = Protected then accessor_acc = Protected \<or> accessor_acc = Private
     else False)"

text \<open>
  \<open>enum class Modifier : uint8_t\<close>.  A value of the enumeration is any combination of
  the flags, so it is modelled by its underlying number.
\<close>

definition Modifier_None :: nat where "Modifier_None = 0"
definition Modifier_Static :: nat where "Modifier_Static = push_bit 1 1"
definition Modifier_Constant :: nat where "Modifier_Constant = push_bit 2 1"
definition Modifier_Array :: nat where "Modifier_Array = push_bit 3 1"
definition Modifier_Init :: nat where "Modifier_Init = push_bit 4 1"
definition Modifier_Nullable :: nat where "Modifier_Nullable = push_bit 5 1"

definition ismod :: "string \<Rightarrow> bool" where
  "ismod str = (str = ''static'' \<or> str = ''const'' \<or> str = ''init'')"

definition getmod :: "string \<Rightarrow> nat" where
  "getmod str =
    (if str = ''static'' then Modifier_Static else if str = ''const'' then Modifier_Constant
     else if str = ''init'' then Modifier_Init else Modifier_None)"

text \<open>\<open>hasFlag(flags, flag)\<close> is \<open>(flags & flag) == flag\<close> on the underlying numbers.\<close>

definition hasFlag :: "nat \<Rightarrow> nat \<Rightarrow> bool" where
  "hasFlag flags flag = ((flags AND flag) = flag)"

section \<open>Abstract syntax (expr.h, stmt.h, decl.h, cond.h)\<close>

text \<open>
  Every node starts with its span (\<open>start\<close>, \<open>end\<close>).  A child pointer that the
  parser can leave null without having dereferenced it is an \<open>option\<close>: the elements of
  an array literal, the arguments of a call, the size of an array type, an initializer,
  the expression of a \<open>return\<close>, the condition of a case branch, and the three parts of
  a \<open>for\<close> header.
\<close>

datatype LiteralType =
  LitInteger | LitFloat | LitString | LitCharacter | LitBoolean | LitNull

datatype Expression =
  BinaryExpression Locus Locus Expression string Expression
  | UnaryExpression Locus Locus string Expression
  | LiteralExpression Locus Locus string LiteralType
  | IdentifierExpression Locus Locus string
  | ArrayIdentifierExpression Locus Locus string "Expression option"
  | IndexExpression Locus Locus Expression Expression
  | CallExpression Locus Locus Expression "Expression option list"
  | AttributeExpression Locus Locus Expression Expression
  | ArrayExpression Locus Locus "Expression option list"

fun expr_start :: "Expression \<Rightarrow> Locus" where
  "expr_start (BinaryExpression s e l op r) = s"
| "expr_start (UnaryExpression s e op x) = s"
| "expr_start (LiteralExpression s e v t) = s"
| "expr_start (IdentifierExpression s e n) = s"
| "expr_start (ArrayIdentifierExpression s e n sz) = s"
| "expr_start (IndexExpression s e a i) = s"
| "expr_start (CallExpression s e c args) = s"
| "expr_start (AttributeExpression s e ob at) = s"
| "expr_start (ArrayExpression s e els) = s"

fun expr_end :: "Expression \<Rightarrow> Locus" where
  "expr_end (BinaryExpression s e l op r) = e"
| "expr_end (UnaryExpression s e op x) = e"
| "expr_end (LiteralExpression s e v t) = e"
| "expr_end (IdentifierExpression s e n) = e"
| "expr_end (ArrayIdentifierExpression s e n sz) = e"
| "expr_end (IndexExpression s e a i) = e"
| "expr_end (CallExpression s e c args) = e"
| "expr_end (AttributeExpression s e ob at) = e"
| "expr_end (ArrayExpression s e els) = e"

text \<open>The \<open>identifier\<close> of a declaration: an \<open>IdentifierExpression\<close> object.\<close>

record Ident =
  id_start :: Locus
  id_end :: Locus
  id_name :: string

definition mkIdent :: "Locus \<Rightarrow> Locus \<Rightarrow> string \<Rightarrow> Ident" where
  "mkIdent s e n = \<lparr>id_start = s, id_end = e, id_name = n\<rparr>"

record ModifierStatement =
  mod_start :: Locus
  mod_end :: Locus
  accessor :: Accessor
  modifier :: nat

definition mkModifierStatement ::
  "Locus \<Rightarrow> Locus \<Rightarrow> Accessor \<Rightarrow> nat \<Rightarrow> ModifierStatement" where
  "mkModifierStatement s e a m = \<lparr>mod_start = s, mod_end = e, accessor = a, modifier = m\<rparr>"

record VariableDeclaration =
  vd_start :: Locus
  vd_end :: Locus
  vd_identifier :: Ident
  vd_type :: Expression
  vd_modifier :: ModifierStatement
  initializer :: "Expression option"

definition mkVariableDeclaration ::
  "Locus \<Rightarrow> Locus \<Rightarrow> Ident \<Rightarrow> Expression \<Rightarrow> ModifierStatement \<Rightarrow> Expression option \<Rightarrow>
   VariableDeclaration" where
  "mkVariableDeclaration s e i t m init =
    \<lparr>vd_start = s, vd_end = e, vd_identifier = i, vd_type = t, vd_modifier = m,
     initializer = init\<rparr>"

record RecordDeclaration =
  rd_start :: Locus
  rd_end :: Locus
  rd_identifier :: Ident
  rd_type :: Expression
  rd_modifier :: ModifierStatement
  rd_fields :: "VariableDeclaration list"

definition mkRecordDeclaration ::
  "Locus \<Rightarrow> Locus \<Rightarrow> Ident \<Rightarrow> Expression \<Rightarrow> ModifierStatement \<Rightarrow> VariableDeclaration list \<Rightarrow>
   RecordDeclaration" where
  "mkRecordDeclaration s e i t m fs =
    \<lparr>rd_start = s, rd_end = e, rd_identifier = i, rd_type = t, rd_modifier = m,
     rd_fields = fs\<rparr>"

text \<open>
  The statements that contain statements.  \<open>Conditional\<close> is the plain
  \<open>ast::Conditional\<close> object the parser creates for each branch of a \<open>switch\<close>; the
  case list of a switch holds such objects.
\<close>

datatype Statement =
  ReturnStatement Locus Locus "Expression option"
  | BreakStatement Locus Locus
  | ContinueStatement Locus Locus
  | ExpressionStatement Locus Locus Expression
  | BlockStmt BlockStatement
  | ModifierStmt ModifierStatement
  | DeclarationStmt Declaration
  | ConditionalStmt ConditionalNode
and BlockStatement =
  BlockStatement Locus Locus "Statement list"
and Declaration =
  VariableDecl VariableDeclaration
  | FunctionDecl FunctionDeclaration
  | ClassDeclaration Locus Locus Ident Expression ModifierStatement
      "VariableDeclaration list" "FunctionDeclaration list"
  | RecordDecl RecordDeclaration
and FunctionDeclaration =
  FunctionDeclaration Locus Locus Ident Expression ModifierStatement
    "VariableDeclaration list" BlockStatement
and ConditionalNode =
  PlainCond Conditional
  | IfCond IfConditional
  | SwitchConditional Locus Locus Expression "Conditional list"
  | WhileConditional Locus Locus Expression BlockStatement
  | ForConditional Locus Locus "Declaration option" "Expression option" "Expression option"
      BlockStatement
and Conditional =
  Conditional Locus Locus "Expression option" BlockStatement
and IfConditional =
  IfConditional Locus Locus Expression BlockStatement "IfConditional list"
    "BlockStatement option"

fun block_start :: "BlockStatement \<Rightarrow> Locus" where
  "block_start (BlockStatement s e stmts) = s"

fun block_end :: "BlockStatement \<Rightarrow> Locus" where
  "block_end (BlockStatement s e stmts) = e"

fun cond_end :: "Conditional \<Rightarrow> Locus" where
  "cond_end (Conditional s e c b) = e"

fun if_end :: "IfConditional \<Rightarrow> Locus" where
  "if_end (IfConditional s e c t el els) = e"

fun fn_start :: "FunctionDeclaration \<Rightarrow> Locus" where
  "fn_start (FunctionDeclaration s e i t m ps b) = s"

fun fn_end :: "FunctionDeclaration \<Rightarrow> Locus" where
  "fn_end (FunctionDeclaration s e i t m ps b) = e"

fun decl_start :: "Declaration \<Rightarrow> Locus" where
  "decl_start (VariableDecl v) = vd_start v"
| "decl_start (FunctionDecl f) = fn_start f"
| "decl_start (ClassDeclaration s e i t m fs ms) = s"
| "decl_start (RecordDecl r) = rd_start r"

fun decl_end :: "Declaration \<Rightarrow> Locus" where
  "decl_end (VariableDecl v) = vd_end v"
| "decl_end (FunctionDecl f) = fn_end f"
| "decl_end (ClassDeclaration s e i t m fs ms) = e"
| "decl_end (RecordDecl r) = rd_end r"

fun cnode_start :: "ConditionalNode \<Rightarrow> Locus" where
  "cnode_start (PlainCond (Conditional s e c b)) = s"
| "cnode_start (IfCond (IfConditional s e c t el els)) = s"
| "cnode_start (SwitchConditional s e x cs) = s"
| "cnode_start (WhileConditional s e c b) = s"
| "cnode_start (ForConditional s e i c inc b) = s"

fun cnode_end :: "ConditionalNode \<Rightarrow> Locus" where
  "cnode_end (PlainCond c) = cond_end c"
| "cnode_end (IfCond i) = if_end i"
| "cnode_end (SwitchConditional s e x cs) = e"
| "cnode_end (WhileConditional s e c b) = e"
| "cnode_end (ForConditional s e i c inc b) = e"

fun stmt_start :: "Statement \<Rightarrow> Locus" where
  "stmt_start (ReturnStatement s e x) = s"
| "stmt_start (BreakStatement s e) = s"
| "stmt_start (ContinueStatement s e) = s"
| "stmt_start (ExpressionStatement s e x) = s"
| "stmt_start (BlockStmt b) = block_start b"
| "stmt_start (ModifierStmt m) = mod_start m"
| "stmt_start (DeclarationStmt d) = decl_start d"
| "stmt_start (ConditionalStmt c) = cnode_start c"

fun stmt_end :: "Statement \<Rightarrow> Locus" where
  "stmt_end (ReturnStatement s e x) = e"
| "stmt_end (BreakStatement s e) = e"
| "stmt_end (ContinueStatement s e) = e"
| "stmt_end (ExpressionStatement s e x) = e"
| "stmt_end (BlockStmt b) = block_end b"
| "stmt_end (ModifierStmt m) = mod_end m"
| "stmt_end (DeclarationStmt d) = decl_end d"
| "stmt_end (ConditionalStmt c) = cnode_end c"

record Program =
  prog_start :: Locus
  prog_end :: Locus
  statements :: "Statement list"

text \<open>
  What the C++ leaves undefined or raises: dereferencing a null pointer, \<open>back()\<close> of an
  empty vector, the \<open>runtime_error\<close> of an inaccessible member, and (for the parser's
  loops, which have no bound of their own) running out of the iteration budget.
\<close>

datatype Fault = NullDereference | BackOfEmptyVector | AccessDenied string | OutOfFuel

section \<open>Semantic entities (var.h, func.h, rec.h, cls.h)\<close>

text \<open>
  \<open>Variable\<close>, \<open>Function\<close>, \<open>Record\<close> and \<open>Class\<close> derive from \<open>Type\<close> with a
  fixed kind; only their names and their own fields vary.
\<close>

record Variable =
  var_name :: string
  var_type :: Type
  var_accessor :: Accessor
  var_modifier :: nat

definition mkVariable :: "string \<Rightarrow> Type \<Rightarrow> Accessor \<Rightarrow> nat \<Rightarrow> Variable" where
  "mkVariable n t a m = \<lparr>var_name = n, var_type = t, var_accessor = a, var_modifier = m\<rparr>"

text \<open>\<open>Variable()\<close>: the default member initialisers.\<close>

definition default_Variable :: Variable where
  "default_Variable = mkVariable [] none_ty Public Modifier_None"

definition Variable_isValid :: "Variable \<Rightarrow> bool" where
  "Variable_isValid v = (var_name v \<noteq> [])"

record Function =
  fn_name :: string
  return_type :: Type
  parameters :: "Variable list"
  fn_access :: Accessor
  fn_modifier :: nat

definition mkFunction ::
  "string \<Rightarrow> Type \<Rightarrow> Variable list \<Rightarrow> Accessor \<Rightarrow> nat \<Rightarrow> Function" where
  "mkFunction n r ps a m =
    \<lparr>fn_name = n, return_type = r, parameters = ps, fn_access = a, fn_modifier = m\<rparr>"

definition default_Function :: Function where
  "default_Function = mkFunction [] none_ty [] Public Modifier_None"

text \<open>
  \<open>Function(const std::string &name)\<close>.  This is the constructor that
  \<open>static_cast<Function>(callee_type)\<close> selects in \<open>inferCall\<close>, through
  \<open>Type::operator std::string\<close>: the result has the callee's name, no parameters and
  the return type \<open>none\<close>.
\<close>

definition Function_of_name :: "string \<Rightarrow> Function" where
  "Function_of_name n = mkFunction n none_ty [] Public Modifier_None"

definition Function_isValid :: "Function \<Rightarrow> bool" where
  "Function_isValid f = (fn_name f \<noteq> [])"

definition isValidArguments :: "Function \<Rightarrow> Type list \<Rightarrow> bool" where
  "isValidArguments f arg_types =
    (if length arg_types \<noteq> length (parameters f) then False
     else list_all2
            (\<lambda>arg p. isSimilarTo arg (var_type p) \<or> (isNumeric arg \<and> isNumeric (var_type p)))
            arg_types (parameters f))"

record Record =
  rec_name :: string
  rec_fields :: "Variable list"

definition default_Record :: Record where
  "default_Record = \<lparr>rec_name = [], rec_fields = []\<rparr>"

definition Record_isValid :: "Record \<Rightarrow> bool" where
  "Record_isValid r = (rec_name r \<noteq> [])"

record Class =
  cls_name :: string
  cls_fields :: "Variable list"
  methods :: "Function list"

definition default_Class :: Class where
  "default_Class = \<lparr>cls_name = [], cls_fields = [], methods = []\<rparr>"

definition Class_isValid :: "Class \<Rightarrow> bool" where
  "Class_isValid c = (cls_name c \<noteq> [])"

text \<open>
  \<open>hasField\<close>/\<open>getField\<close> and \<open>hasMethod\<close>/\<open>getMethod\<close>: the first member with
  the name decides; the getters throw when it is not accessible.
\<close>

fun hasField :: "Variable list \<Rightarrow> string \<Rightarrow> Accessor \<Rightarrow> bool" where
  "hasField [] field_name access = False"
| "hasField (field # rest) field_name access =
    (if var_name field = field_name then canAccess (var_accessor field) access
     else hasField rest field_name access)"

fun getField :: "Variable list \<Rightarrow> string \<Rightarrow> Accessor \<Rightarrow> Fault + Variable" where
  "getField [] field_name access = Inr default_Variable"
| "getField (field # rest) field_name access =
    (if var_name field = field_name then
       (if canAccess (var_accessor field) access then Inr field
        else Inl (AccessDenied field_name))
     else getField rest field_name access)"

fun hasMethod :: "Function list \<Rightarrow> string \<Rightarrow> Accessor \<Rightarrow> bool" where
  "hasMethod [] method_name access = False"
| "hasMethod (method # rest) method_name access =
    (if fn_name method = method_name then canAccess (fn_access method) access
     else hasMethod rest method_name access)"

fun getMethod :: "Function list \<Rightarrow> string \<Rightarrow> Accessor \<Rightarrow> Fault + Function" where
  "getMethod [] method_name access = Inr default_Function"
| "getMethod (method # rest) method_name access =
    (if fn_name method = method_name then
       (if canAccess (fn_access method) access then Inr method
        else Inl (AccessDenied method_name))
     else getMethod rest method_name access)"

section \<open>Scopes (scope.h)\<close>

text \<open>
  \<open>enum class ScopeKind\<close> with its enumerators in declaration order, hence the
  underlying values 0 to 5.  A scope stores whatever \<open>operator|\<close> produced, so its kind is
  modelled by the underlying number.
\<close>

datatype ScopeKind = SkGlobal | SkBlock | SkFunction | SkLoop | SkClass | SkRecord

fun underlying :: "ScopeKind \<Rightarrow> nat" where
  "underlying SkGlobal = 0"
| "underlying SkBlock = 1"
| "underlying SkFunction = 2"
| "underlying SkLoop = 3"
| "underlying SkClass = 4"
| "underlying SkRecord = 5"

record Scope =
  scope_name :: string
  scope_kind :: nat
  scope_variables :: "Variable list"
  scope_functions :: "Function list"
  scope_classes :: "Class list"
  scope_records :: "Record list"

definition mkScope :: "string \<Rightarrow> nat \<Rightarrow> Scope" where
  "mkScope n k =
    \<lparr>scope_name = n, scope_kind = k, scope_variables = [], scope_functions = [], scope_classes = [],
     scope_records = []\<rparr>"

definition primitives :: "Type list" where
  "primitives =
    [i8_ty, i16_ty, i32_ty, i64_ty, i128_ty, u8_ty, u16_ty, u32_ty, u64_ty, u128_ty,
     f16_ty, f32_ty, f64_ty, f128_ty, bool_ty, char_ty, string_ty, void_ty, null_ty]"

text \<open>
  A scope together with the chain of its parents is a non-empty list, innermost scope
  first; the empty list is the null pointer.  The lookups search the scope's own list in
  order and then recurse into the parent.
\<close>

fun hasVariable :: "Scope list \<Rightarrow> string \<Rightarrow> bool" where
  "hasVariable [] var_name' = False"
| "hasVariable (s # parent) var_name' =
    (case find (\<lambda>v. var_name v = var_name') (scope_variables s) of
       Some v \<Rightarrow> True
     | None \<Rightarrow> hasVariable parent var_name')"

fun hasFunction :: "Scope list \<Rightarrow> string \<Rightarrow> bool" where
  "hasFunction [] func_name = False"
| "hasFunction (s # parent) func_name =
    (case find (\<lambda>f. fn_name f = func_name) (scope_functions s) of
       Some f \<Rightarrow> True
     | None \<Rightarrow> hasFunction parent func_name)"

fun hasClass :: "Scope list \<Rightarrow> string \<Rightarrow> bool" where
  "hasClass [] class_name = False"
| "hasClass (s # parent) class_name =
    (case find (\<lambda>c. cls_name c = class_name) (scope_classes s) of
       Some c \<Rightarrow> True
     | None \<Rightarrow> hasClass parent class_name)"

fun hasRecord :: "Scope list \<Rightarrow> string \<Rightarrow> bool" where
  "hasRecord [] record_name = False"
| "hasRecord (s # parent) record_name =
    (case find (\<lambda>r. rec_name r = record_name) (scope_records s) of
       Some r \<Rightarrow> True
     | None \<Rightarrow> hasRecord parent record_name)"

fun getVariable :: "Scope list \<Rightarrow> string \<Rightarrow> Variable" where
  "getVariable [] var_name' = default_Variable"
| "getVariable (s # parent) var_name' =
    (case find (\<lambda>v. var_name v = var_name') (scope_variables s) of
       Some v \<Rightarrow> v
     | None \<Rightarrow> getVariable parent var_name')"

fun getFunction :: "Scope list \<Rightarrow> string \<Rightarrow> Function" where
  "getFunction [] func_name = default_Function"
| "getFunction (s # parent) func_name =
    (case find (\<lambda>f. fn_name f = func_name) (scope_functions s) of
       Some f \<Rightarrow> f
     | None \<Rightarrow> getFunction parent func_name)"

fun getClass :: "Scope list \<Rightarrow> string \<Rightarrow> Class" where
  "getClass [] class_name = default_Class"
| "getClass (s # parent) class_name =
    (case find (\<lambda>c. cls_name c = class_name) (scope_classes s) of
       Some c \<Rightarrow> c
     | None \<Rightarrow> getClass parent class_name)"

fun getRecord :: "Scope list \<Rightarrow> string \<Rightarrow> Record" where
  "getRecord [] record_name = default_Record"
| "getRecord (s # parent) record_name =
    (case find (\<lambda>r. rec_name r = record_name) (scope_records s) of
       Some r \<Rightarrow> r
     | None \<Rightarrow> getRecord parent record_name)"

fun hasType :: "Scope list \<Rightarrow> string \<Rightarrow> bool" where
  "hasType [] type_name = False"
| "hasType (s # parent) type_name =
    (case find (\<lambda>prim. ty_name prim = type_name) primitives of
       Some prim \<Rightarrow> True
     | None \<Rightarrow>
         if hasClass (s # parent) type_name \<or> hasRecord (s # parent) type_name then True
         else hasType parent type_name)"

text \<open>
  \<open>getType\<close> returns a \<open>Type\<close> by value: a class or record found by name is sliced to
  its kind and name.
\<close>

fun getType :: "Scope list \<Rightarrow> string \<Rightarrow> Type" where
  "getType [] type_name = mkType TyNone []"
| "getType (s # parent) type_name =
    (case find (\<lambda>prim. ty_name prim = type_name) primitives of
       Some prim \<Rightarrow> prim
     | None \<Rightarrow>
         if hasClass (s # parent) type_name
         then mkType TyClass (cls_name (getClass (s # parent) type_name))
         else if hasRecord (s # parent) type_name
         then mkType TyRecord (rec_name (getRecord (s # parent) type_name))
         else getType parent type_name)"

section \<open>Analyzer (analysis.h, analysis.cpp)\<close>

text \<open>
  \<open>current_scope\<close> is the innermost scope with its parents (\<open>[]\<close> is \<open>nullptr\<close>);
  \<open>errors\<close> is the accumulated diagnostics list; \<open>error_stream\<close> holds what
  \<open>err.log()\<close> wrote directly.  A method yields either a fault or its result with the
  analyzer updated.
\<close>

record Analyzer =
  current_scope :: "Scope list"
  errors :: "Diagnostic list"
  error_stream :: "Diagnostic list"

definition new_Analyzer :: Analyzer where
  "new_Analyzer = \<lparr>current_scope = [], errors = [], error_stream = []\<rparr>"

definition push_error :: "string \<Rightarrow> Locus \<Rightarrow> Locus \<Rightarrow> Analyzer \<Rightarrow> Analyzer" where
  "push_error msg s e a = a\<lparr>errors := errors a @ [mkError Error msg s e]\<rparr>"

definition log_error :: "string \<Rightarrow> Locus \<Rightarrow> Locus \<Rightarrow> Analyzer \<Rightarrow> Analyzer" where
  "log_error msg s e a = a\<lparr>error_stream := error_stream a @ [mkError Error msg s e]\<rparr>"

definition enterScope :: "string \<Rightarrow> ScopeKind \<Rightarrow> Analyzer \<Rightarrow> Analyzer" where
  "enterScope name kind a =
    (case current_scope a of
       s # parent \<Rightarrow>
         a\<lparr>current_scope := mkScope name (scope_kind s OR underlying kind) # s # parent\<rparr>
     | [] \<Rightarrow> a\<lparr>current_scope := [mkScope name (underlying kind)]\<rparr>)"

definition exitScope :: "Analyzer \<Rightarrow> Analyzer" where
  "exitScope a =
    (case current_scope a of
       s # parent \<Rightarrow> a\<lparr>current_scope := parent\<rparr>
     | [] \<Rightarrow> a)"

text \<open>Sequencing of fallible steps.\<close>

definition andThen :: "Fault + 'a \<Rightarrow> ('a \<Rightarrow> Fault + 'b) \<Rightarrow> Fault + 'b" where
  "andThen m f = (case m of Inl fault \<Rightarrow> Inl fault | Inr x \<Rightarrow> f x)"

text \<open>
  \<open>this->current_scope->...\<close>: the members of the current scope, a null dereference when
  there is none.
\<close>

definition addVariable :: "Variable \<Rightarrow> Analyzer \<Rightarrow> Fault + Analyzer" where
  "addVariable v a =
    (case current_scope a of
       [] \<Rightarrow> Inl NullDereference
     | s # parent \<Rightarrow>
         Inr (a\<lparr>current_scope := s\<lparr>scope_variables := scope_variables s @ [v]\<rparr> # parent\<rparr>))"

definition addFunction :: "Function \<Rightarrow> Analyzer \<Rightarrow> Fault + Analyzer" where
  "addFunction f a =
    (case current_scope a of
       [] \<Rightarrow> Inl NullDereference
     | s # parent \<Rightarrow>
         Inr (a\<lparr>current_scope := s\<lparr>scope_functions := scope_functions s @ [f]\<rparr> # parent\<rparr>))"

definition addClass :: "Class \<Rightarrow> Analyzer \<Rightarrow> Fault + Analyzer" where
  "addClass c a =
    (case current_scope a of
       [] \<Rightarrow> Inl NullDereference
     | s # parent \<Rightarrow>
         Inr (a\<lparr>current_scope := s\<lparr>scope_classes := scope_classes s @ [c]\<rparr> # parent\<rparr>))"

definition addRecord :: "Record \<Rightarrow> Analyzer \<Rightarrow> Fault + Analyzer" where
  "addRecord r a =
    (case current_scope a of
       [] \<Rightarrow> Inl NullDereference
     | s # parent \<Rightarrow>
         Inr (a\<lparr>current_scope := s\<lparr>scope_records := scope_records s @ [r]\<rparr> # parent\<rparr>))"

definition current_kind :: "Analyzer \<Rightarrow> Fault + nat" where
  "current_kind a =
    (case current_scope a of [] \<Rightarrow> Inl NullDereference | s # parent \<Rightarrow> Inr (scope_kind s))"

definition inferLiteral :: "LiteralType \<Rightarrow> Type" where
  "inferLiteral t =
    (case t of
       LitInteger \<Rightarrow> i64_ty
     | LitFloat \<Rightarrow> f64_ty
     | LitString \<Rightarrow> string_ty
     | LitCharacter \<Rightarrow> char_ty
     | LitBoolean \<Rightarrow> bool_ty
     | LitNull \<Rightarrow> null_ty)"

definition inferIdentifier ::
  "Analyzer \<Rightarrow> Locus \<Rightarrow> Locus \<Rightarrow> string \<Rightarrow> Fault + (Type \<times> Analyzer)" where
  "inferIdentifier a s e name =
    (let sc = current_scope a in
     if sc = [] then Inl NullDereference
     else if hasVariable sc name then Inr (var_type (getVariable sc name), a)
     else if hasFunction sc name then Inr (mkType TyFunction (fn_name (getFunction sc name)), a)
     else if hasClass sc name then Inr (mkType TyClass (cls_name (getClass sc name)), a)
     else if hasRecord sc name then Inr (mkType TyRecord (rec_name (getRecord sc name)), a)
     else if hasType sc name then Inr (getType sc name, a)
     else Inr (none_ty, push_error (''Undeclared identifier: '' @ name) s e a))"

text \<open>
  \<open>dynamic_cast<IdentifierExpression *>\<close>: it succeeds on identifiers and, because
  \<open>ArrayIdentifierExpression\<close> derives from \<open>IdentifierExpression\<close>, on array type
  expressions.
\<close>

fun as_identifier :: "Expression \<Rightarrow> string option" where
  "as_identifier (IdentifierExpression s e name) = Some name"
| "as_identifier (ArrayIdentifierExpression s e name sz) = Some name"
| "as_identifier other = None"

text \<open>The field access on a class and on a record, as \<open>inferAttribute\<close> has them.\<close>

definition classField ::
  "Analyzer \<Rightarrow> Locus \<Rightarrow> Locus \<Rightarrow> Class \<Rightarrow> string \<Rightarrow> Fault + (Type \<times> Analyzer)" where
  "classField a s e cls attr_name =
    (if hasField (cls_fields cls) attr_name Public then
       andThen (getField (cls_fields cls) attr_name Public) (\<lambda>field. Inr (var_type field, a))
     else Inr (none_ty, push_error (''Unknown attribute: '' @ attr_name) s e a))"

definition recordAttribute ::
  "Analyzer \<Rightarrow> Locus \<Rightarrow> Locus \<Rightarrow> Record \<Rightarrow> Expression \<Rightarrow> Fault + (Type \<times> Analyzer)" where
  "recordAttribute a s e rec attribute =
    (case as_identifier attribute of
       Some attr_name \<Rightarrow>
         if hasField (rec_fields rec) attr_name Public then
           andThen (getField (rec_fields rec) attr_name Public) (\<lambda>field. Inr (var_type field, a))
         else
           Inr (none_ty,
                push_error ''Record has no accessible attribute.'' s e
                  (push_error (''Unknown attribute: '' @ attr_name) s e a))
     | None \<Rightarrow> Inr (none_ty, push_error ''Record has no accessible attribute.'' s e a))"

text \<open>
  \<open>inferExpression\<close> tries its \<open>dynamic_cast\<close>s in a fixed order, so an array type
  expression is handled by \<open>inferIdentifier\<close>, which looks at its name only.
  \<open>inferArguments\<close> is the loop that infers each argument of a call in turn;
  \<open>inferClassAttribute\<close> is the part of \<open>inferAttribute\<close> that inspects the attribute of
  a class-typed object.
\<close>

fun inferExpression :: "Analyzer \<Rightarrow> Expression \<Rightarrow> Fault + (Type \<times> Analyzer)"
  and inferArguments :: "Analyzer \<Rightarrow> Expression option list \<Rightarrow> Fault + (Type list \<times> Analyzer)"
  and inferClassAttribute ::
    "Analyzer \<Rightarrow> Locus \<Rightarrow> Locus \<Rightarrow> Class \<Rightarrow> Expression \<Rightarrow> Fault + (Type \<times> Analyzer)"
  where
  "inferExpression a (BinaryExpression s e left op right) =
    andThen (inferExpression a left) (\<lambda>(left_type, a1).
    andThen (inferExpression a1 right) (\<lambda>(right_type, a2).
    Inr (promoteTypes left_type right_type, a2)))"
| "inferExpression a (UnaryExpression s e op operand) = inferExpression a operand"
| "inferExpression a (LiteralExpression s e v t) = Inr (inferLiteral t, a)"
| "inferExpression a (IdentifierExpression s e name) = inferIdentifier a s e name"
| "inferExpression a (ArrayIdentifierExpression s e name sz) = inferIdentifier a s e name"
| "inferExpression a (IndexExpression s e array idx) =
    andThen (inferExpression a array) (\<lambda>(array_type, a1).
    andThen (inferExpression a1 idx) (\<lambda>(index_type, a2).
    if ty_kind array_type = TyArray \<and> isInteger index_type then Inr (array_type, a2)
    else Inr (none_ty, a2)))"
| "inferExpression a (ArrayExpression s e []) = Inr (none_ty, a)"
| "inferExpression a (ArrayExpression s e (None # rest)) = Inl NullDereference"
| "inferExpression a (ArrayExpression s e (Some first # rest)) =
    andThen (inferExpression a first) (\<lambda>(element_type, a1).
    Inr (mkType TyArray (''array'' @ ty_name element_type), a1))"
| "inferExpression a (CallExpression s e callee arguments) =
    andThen (inferExpression a callee) (\<lambda>(callee_type, a1).
    if ty_kind callee_type = TyFunction then
      andThen (inferArguments a1 arguments) (\<lambda>(param_types, a2).
      let func = Function_of_name (ty_name callee_type) in
      if isValidArguments func param_types then Inr (return_type func, a2)
      else
        Inr (none_ty,
             push_error ''Called function does not exist.'' s e
               (push_error ''Function called with invalid arguments.'' s e a2)))
    else if ty_kind callee_type = TyClass then
      (if current_scope a1 = [] then Inl NullDereference
       else
         let cls = getClass (current_scope a1) (ty_name callee_type) in
         andThen (inferArguments a1 arguments) (\<lambda>(param_types, a2).
         if \<not> hasMethod (methods cls) ''init'' Public then
           Inr (none_ty,
                push_error (''Class has no accessible constructor: '' @ cls_name cls) s e a2)
         else
           andThen (getMethod (methods cls) ''init'' Public) (\<lambda>constructor.
           if \<not> Function_isValid constructor then
             Inr (none_ty,
                  push_error (''Class constructor is not accessible: '' @ cls_name cls) s e a2)
           else if isValidArguments constructor param_types then
             Inr (mkType TyClass (cls_name cls), a2)
           else
             Inr (none_ty,
                  push_error (''Invalid constructor arguments for class: '' @ cls_name cls)
                    s e a2))))
    else Inr (none_ty, push_error ''Called function does not exist.'' s e a1))"
| "inferExpression a (AttributeExpression s e object attribute) =
    andThen (inferExpression a object) (\<lambda>(object_type, a1).
    if ty_kind object_type = TyClass then
      (if current_scope a1 = [] then Inl NullDereference
       else
         inferClassAttribute a1 s e (getClass (current_scope a1) (ty_name object_type))
           attribute)
    else if ty_kind object_type = TyRecord then
      (if current_scope a1 = [] then Inl NullDereference
       else
         recordAttribute a1 s e (getRecord (current_scope a1) (ty_name object_type))
           attribute)
    else Inr (none_ty, a1))"
| "inferArguments a [] = Inr ([], a)"
| "inferArguments a (None # rest) = Inl NullDereference"
| "inferArguments a (Some arg # rest) =
    andThen (inferExpression a arg) (\<lambda>(arg_type, a1).
    andThen (inferArguments a1 rest) (\<lambda>(types, a2).
    Inr (arg_type # types, a2)))"
| "inferClassAttribute a s e cls (IdentifierExpression as ae attr_name) =
    classField a s e cls attr_name"
| "inferClassAttribute a s e cls (ArrayIdentifierExpression as ae attr_name sz) =
    classField a s e cls attr_name"
| "inferClassAttribute a s e cls (CallExpression cs ce callee call_arguments) =
    (case as_identifier callee of
       Some method_name \<Rightarrow>
         if hasMethod (methods cls) method_name Public then
           andThen (getMethod (methods cls) method_name Public) (\<lambda>method.
           andThen (inferArguments a call_arguments) (\<lambda>(arg_types, a1).
           if isValidArguments method arg_types then Inr (return_type method, a1)
           else
             Inr (none_ty, push_error ''Method called with invalid arguments.'' s e a1)))
         else Inr (none_ty, push_error (''Unknown method: '' @ method_name) s e a)
     | None \<Rightarrow> Inr (none_ty, push_error ''Unknown method attribute expression.'' s e a))"
| "inferClassAttribute a s e cls other =
    Inr (none_ty, push_error ''Unknown attribute type'' s e a)"

text \<open>
  The loops of \<open>declareFunction\<close>, \<open>declareClass\<close> and \<open>declareRecord\<close> over
  parameter and field declarations: each infers the declared type, reports an invalid one
  under the message of its own, and collects a \<open>Variable\<close>.
\<close>

fun declareMembers ::
  "string \<Rightarrow> Analyzer \<Rightarrow> VariableDeclaration list \<Rightarrow> Fault + (Variable list \<times> Analyzer)"
  where
  "declareMembers msg a [] = Inr ([], a)"
| "declareMembers msg a (decl # rest) =
    andThen (inferExpression a (vd_type decl)) (\<lambda>(member_type, a1).
    let a2 = (if \<not> isValid member_type
              then push_error (msg @ id_name (vd_identifier decl)) (vd_start decl) (vd_end decl) a1
              else a1);
        v = mkVariable (id_name (vd_identifier decl)) member_type
              (accessor (vd_modifier decl)) (modifier (vd_modifier decl))
    in andThen (declareMembers msg a2 rest) (\<lambda>(vs, a3). Inr (v # vs, a3)))"

definition declareVariable ::
  "Analyzer \<Rightarrow> VariableDeclaration \<Rightarrow> Fault + (Variable \<times> Analyzer)" where
  "declareVariable a decl =
    andThen (inferExpression a (vd_type decl)) (\<lambda>(var_type', a1).
    let name = id_name (vd_identifier decl);
        a2 = (if \<not> isValid var_type'
              then push_error (''Invalid type for variable declaration: '' @ name)
                     (vd_start decl) (vd_end decl) a1
              else a1)
    in andThen
         (addVariable
            (mkVariable name var_type' (accessor (vd_modifier decl))
               (modifier (vd_modifier decl))) a2)
         (\<lambda>a3. Inr (getVariable (current_scope a3) name, a3)))"

fun declareFunction ::
  "Analyzer \<Rightarrow> FunctionDeclaration \<Rightarrow> Fault + (Function \<times> Analyzer)" where
  "declareFunction a (FunctionDeclaration s e ident type mods params body) =
    andThen (inferExpression a type) (\<lambda>(return_type', a1).
    let a2 = (if \<not> isValid return_type'
              then push_error
                     (''Invalid return type for function declaration: '' @ id_name ident) s e a1
              else a1)
    in andThen (declareMembers ''Invalid type for function parameter: '' a2 params)
         (\<lambda>(parameters', a3).
         andThen
           (addFunction
              (mkFunction (id_name ident) return_type' parameters' (accessor mods)
                 (modifier mods)) a3)
           (\<lambda>a4. Inr (getFunction (current_scope a4) (id_name ident), a4))))"

fun declareMethods ::
  "Analyzer \<Rightarrow> FunctionDeclaration list \<Rightarrow> Fault + (Function list \<times> Analyzer)" where
  "declareMethods a [] = Inr ([], a)"
| "declareMethods a (FunctionDeclaration s e ident type mods params body # rest) =
    andThen (inferExpression a type) (\<lambda>(return_type', a1).
    let a2 = (if \<not> isValid return_type'
              then push_error (''Invalid return type for class method: '' @ id_name ident) s e a1
              else a1)
    in andThen (declareMembers ''Invalid type for method parameter: '' a2 params)
         (\<lambda>(parameters', a3).
         let m = mkFunction (id_name ident) return_type' parameters' (accessor mods)
                   (modifier mods)
         in andThen (declareMethods a3 rest) (\<lambda>(ms, a4). Inr (m # ms, a4))))"

definition declareClass ::
  "Analyzer \<Rightarrow> Ident \<Rightarrow> VariableDeclaration list \<Rightarrow> FunctionDeclaration list \<Rightarrow>
   Fault + (Class \<times> Analyzer)" where
  "declareClass a ident field_decls method_decls =
    andThen (declareMembers ''Invalid type for class field: '' a field_decls) (\<lambda>(fs, a1).
    andThen (declareMethods a1 method_decls) (\<lambda>(ms, a2).
    andThen
      (addClass \<lparr>cls_name = id_name ident, cls_fields = fs, methods = ms\<rparr> a2)
      (\<lambda>a3. Inr (getClass (current_scope a3) (id_name ident), a3))))"

definition declareRecord ::
  "Analyzer \<Rightarrow> RecordDeclaration \<Rightarrow> Fault + (Record \<times> Analyzer)" where
  "declareRecord a decl =
    andThen (declareMembers ''Invalid type for record field: '' a (rd_fields decl)) (\<lambda>(fs, a1).
    andThen
      (addRecord \<lparr>rec_name = id_name (rd_identifier decl), rec_fields = fs\<rparr> a1)
      (\<lambda>a2. Inr (getRecord (current_scope a2) (id_name (rd_identifier decl)), a2)))"

definition analyzeVariableDeclaration ::
  "Analyzer \<Rightarrow> VariableDeclaration \<Rightarrow> Fault + Analyzer" where
  "analyzeVariableDeclaration a var_decl =
    andThen (declareVariable a var_decl) (\<lambda>(var, a1).
    let name = id_name (vd_identifier var_decl);
        a2 = (if \<not> Variable_isValid var
              then push_error (''Unable to declare variable: '' @ name)
                     (vd_start var_decl) (vd_end var_decl) a1
              else a1)
    in case initializer var_decl of
         None \<Rightarrow> Inr a2
       | Some init \<Rightarrow>
           andThen (inferExpression a2 init) (\<lambda>(init_type, a3).
           if \<not> isValid init_type then
             Inr (push_error (''Invalid type for variable initializer: '' @ name)
                    (expr_start init) (expr_end init) a3)
           else if \<not> canAssignType init_type (var_type var) then
             Inr (push_error (''Type mismatch in variable initializer: '' @ name)
                    (expr_start init) (expr_end init) a3)
           else Inr a3))"

definition analyzeRecordDeclaration ::
  "Analyzer \<Rightarrow> RecordDeclaration \<Rightarrow> Fault + Analyzer" where
  "analyzeRecordDeclaration a record_decl =
    andThen (declareRecord a record_decl) (\<lambda>(record, a1).
    if \<not> Record_isValid record then
      Inr (push_error (''Unable to declare record: '' @ id_name (rd_identifier record_decl))
             (rd_start record_decl) (rd_end record_decl) a1)
    else Inr a1)"

definition analyzeModifierStatement ::
  "Analyzer \<Rightarrow> ModifierStatement \<Rightarrow> Fault + Analyzer" where
  "analyzeModifierStatement a mod_stmt =
    andThen (current_kind a) (\<lambda>kind.
    if \<not> hasFlag kind (underlying SkClass) \<and>
       (accessor mod_stmt \<noteq> Public \<or> modifier mod_stmt \<noteq> Modifier_None)
    then Inr (push_error ''Modifiers can only be used within class scopes.''
                (mod_start mod_stmt) (mod_end mod_stmt) a)
    else Inr a)"

definition analyzeExpressionStatement ::
  "Analyzer \<Rightarrow> Locus \<Rightarrow> Locus \<Rightarrow> Expression \<Rightarrow> Fault + Analyzer" where
  "analyzeExpressionStatement a s e expression =
    andThen (inferExpression a expression) (\<lambda>(expr_type, a1).
    if \<not> isValid expr_type then
      Inr (push_error ''Invalid expression in expression statement.'' s e a1)
    else Inr a1)"

definition analyzeReturnStatement ::
  "Analyzer \<Rightarrow> Locus \<Rightarrow> Locus \<Rightarrow> Expression option \<Rightarrow> Fault + Analyzer" where
  "analyzeReturnStatement a s e expression =
    andThen
      (case expression of
         None \<Rightarrow> Inr a
       | Some x \<Rightarrow> andThen (inferExpression a x) (\<lambda>(t, a1). Inr a1))
      (\<lambda>a1.
      andThen (current_kind a1) (\<lambda>kind.
      if \<not> hasFlag kind (underlying SkFunction) then
        Inr (push_error ''Return statement not within a function scope.'' s e a1)
      else Inr a1))"

definition analyzeBreakStatement :: "Analyzer \<Rightarrow> Locus \<Rightarrow> Locus \<Rightarrow> Fault + Analyzer" where
  "analyzeBreakStatement a s e =
    andThen (current_kind a) (\<lambda>kind.
    if \<not> hasFlag kind (underlying SkLoop) then
      Inr (push_error ''Break statement not within a loop scope.'' s e a)
    else Inr a)"

definition analyzeContinueStatement :: "Analyzer \<Rightarrow> Locus \<Rightarrow> Locus \<Rightarrow> Fault + Analyzer" where
  "analyzeContinueStatement a s e =
    andThen (current_kind a) (\<lambda>kind.
    if \<not> hasFlag kind (underlying SkLoop) then
      Inr (push_error ''Continue statement not within a loop scope.'' s e a)
    else Inr a)"

text \<open>
  The condition check shared by \<open>if\<close>, \<open>while\<close> and \<open>for\<close>; only the message for an
  invalid type differs.
\<close>

definition checkCondition :: "string \<Rightarrow> Analyzer \<Rightarrow> Expression \<Rightarrow> Fault + Analyzer" where
  "checkCondition invalid_msg a condition =
    andThen (inferExpression a condition) (\<lambda>(cond_type, a1).
    if \<not> isValid cond_type then
      Inr (push_error invalid_msg (expr_start condition) (expr_end condition) a1)
    else if \<not> isTruthy cond_type then
      Inr (push_error ''Condition expression must be of a truthy type.''
             (expr_start condition) (expr_end condition) a1)
    else Inr a1)"

text \<open>
  The increment of a \<open>for\<close>: an invalid type is written to the error stream, not to the
  diagnostics list (the second branch of the source repeats the first test and is dead).
\<close>

definition checkIncrement :: "Analyzer \<Rightarrow> Expression \<Rightarrow> Fault + Analyzer" where
  "checkIncrement a increment =
    andThen (inferExpression a increment) (\<lambda>(inc_type, a1).
    if \<not> isValid inc_type then
      Inr (log_error ''Increment expression must be of a valid type.''
             (expr_start increment) (expr_end increment) a1)
    else Inr a1)"

text \<open>
  The parameter loop of \<open>analyzeFunctionDeclaration\<close>, which declares each parameter as
  a variable of the function scope.
\<close>

fun declareParameters :: "Analyzer \<Rightarrow> VariableDeclaration list \<Rightarrow> Fault + Analyzer" where
  "declareParameters a [] = Inr a"
| "declareParameters a (param_decl # rest) =
    andThen (declareVariable a param_decl) (\<lambda>(param, a1).
    let a2 = (if \<not> Variable_isValid param
              then push_error
                     (''Unable to declare function parameter: '' @
                        id_name (vd_identifier param_decl))
                     (vd_start param_decl) (vd_end param_decl) a1
              else a1)
    in declareParameters a2 rest)"

text \<open>
  The statement walk.  \<open>analyzeStatement\<close> tries its casts in the order Declaration,
  Modifier, Block, Expression statement, Conditional, Return, Break, Continue; the node
  kinds are disjoint, so the order does not show.  A plain \<open>Conditional\<close> object matches
  none of the casts of \<open>analyzeConditional\<close>.  The functions on lists are the
  \<open>for\<close> loops over child vectors.
\<close>

fun analyzeStatement :: "Analyzer \<Rightarrow> Statement \<Rightarrow> Fault + Analyzer"
  and analyzeStatements :: "Analyzer \<Rightarrow> Statement list \<Rightarrow> Fault + Analyzer"
  and analyzeDeclaration :: "Analyzer \<Rightarrow> Declaration \<Rightarrow> Fault + Analyzer"
  and analyzeFunctionDeclaration :: "Analyzer \<Rightarrow> FunctionDeclaration \<Rightarrow> Fault + Analyzer"
  and analyzeMethods :: "Analyzer \<Rightarrow> FunctionDeclaration list \<Rightarrow> Fault + Analyzer"
  and analyzeBlockStatement :: "Analyzer \<Rightarrow> BlockStatement \<Rightarrow> Fault + Analyzer"
  and analyzeConditional :: "Analyzer \<Rightarrow> ConditionalNode \<Rightarrow> Fault + Analyzer"
  and analyzeIfConditional :: "Analyzer \<Rightarrow> IfConditional \<Rightarrow> Fault + Analyzer"
  and analyzeElifBranches :: "Analyzer \<Rightarrow> IfConditional list \<Rightarrow> Fault + Analyzer"
  and analyzeCaseBranches :: "Analyzer \<Rightarrow> Conditional list \<Rightarrow> Fault + Analyzer"
  where
  "analyzeStatement a (DeclarationStmt decl) = analyzeDeclaration a decl"
| "analyzeStatement a (ModifierStmt mod_stmt) = analyzeModifierStatement a mod_stmt"
| "analyzeStatement a (BlockStmt block_stmt) = analyzeBlockStatement a block_stmt"
| "analyzeStatement a (ExpressionStatement s e expression) =
    analyzeExpressionStatement a s e expression"
| "analyzeStatement a (ConditionalStmt cond) = analyzeConditional a cond"
| "analyzeStatement a (ReturnStatement s e expression) =
    analyzeReturnStatement a s e expression"
| "analyzeStatement a (BreakStatement s e) = analyzeBreakStatement a s e"
| "analyzeStatement a (ContinueStatement s e) = analyzeContinueStatement a s e"
| "analyzeStatements a [] = Inr a"
| "analyzeStatements a (stmt # rest) =
    andThen (analyzeStatement a stmt) (\<lambda>a1. analyzeStatements a1 rest)"
| "analyzeDeclaration a (FunctionDecl func_decl) = analyzeFunctionDeclaration a func_decl"
| "analyzeDeclaration a (VariableDecl var_decl) = analyzeVariableDeclaration a var_decl"
| "analyzeDeclaration a (ClassDeclaration s e ident type mods field_decls method_decls) =
    andThen (declareClass a ident field_decls method_decls) (\<lambda>(cls, a1).
    if \<not> Class_isValid cls then
      Inr (push_error (''Unable to declare class: '' @ id_name ident) s e a1)
    else
      andThen (analyzeMethods (enterScope (id_name ident) SkClass a1) method_decls)
        (\<lambda>a2. Inr (exitScope a2)))"
| "analyzeDeclaration a (RecordDecl record_decl) = analyzeRecordDeclaration a record_decl"
| "analyzeFunctionDeclaration a (FunctionDeclaration s e ident type mods params body) =
    andThen (declareFunction a (FunctionDeclaration s e ident type mods params body))
      (\<lambda>(func, a1).
      if \<not> Function_isValid func then
        Inr (push_error (''Unable to declare function: '' @ id_name ident) s e a1)
      else
        andThen (declareParameters (enterScope (id_name ident) SkFunction a1) params)
          (\<lambda>a2. andThen (analyzeBlockStatement a2 body) (\<lambda>a3. Inr (exitScope a3))))"
| "analyzeMethods a [] = Inr a"
| "analyzeMethods a (method # rest) =
    andThen (analyzeFunctionDeclaration a method) (\<lambda>a1. analyzeMethods a1 rest)"
| "analyzeBlockStatement a (BlockStatement s e stmts) =
    andThen (analyzeStatements (enterScope ''block'' SkBlock a) stmts)
      (\<lambda>a1. Inr (exitScope a1))"
| "analyzeConditional a (IfCond if_cond) = analyzeIfConditional a if_cond"
| "analyzeConditional a (SwitchConditional s e switch_expression case_branches) =
    andThen (inferExpression a switch_expression) (\<lambda>(switch_type, a1).
    let a2 = (if \<not> isValid switch_type
              then push_error ''Invalid type for switch expression.''
                     (expr_start switch_expression) (expr_end switch_expression) a1
              else a1)
    in analyzeCaseBranches a2 case_branches)"
| "analyzeConditional a (WhileConditional s e condition then_branch) =
    andThen
      (checkCondition ''Invalid type for condition expression.''
         (enterScope ''while'' SkLoop a) condition)
      (\<lambda>a1. andThen (analyzeBlockStatement a1 then_branch) (\<lambda>a2. Inr (exitScope a2)))"
| "analyzeConditional a (ForConditional s e init condition increment then_branch) =
    andThen
      (case init of
         None \<Rightarrow> Inr (enterScope ''for'' SkLoop a)
       | Some decl \<Rightarrow> analyzeDeclaration (enterScope ''for'' SkLoop a) decl)
      (\<lambda>a1.
      andThen
        (case condition of
           None \<Rightarrow> Inr a1
         | Some c \<Rightarrow> checkCondition ''Condition expression must be of a valid type.'' a1 c)
        (\<lambda>a2.
        andThen
          (case increment of None \<Rightarrow> Inr a2 | Some inc \<Rightarrow> checkIncrement a2 inc)
          (\<lambda>a3.
          andThen (analyzeBlockStatement a3 then_branch) (\<lambda>a4. Inr (exitScope a4)))))"
| "analyzeConditional a (PlainCond c) = Inr a"
| "analyzeIfConditional a (IfConditional s e condition then_branch elif_branches else_branch) =
    andThen (checkCondition ''Invalid type for condition expression.'' a condition) (\<lambda>a1.
    andThen (analyzeBlockStatement a1 then_branch) (\<lambda>a2.
    andThen (analyzeElifBranches a2 elif_branches) (\<lambda>a3.
    case else_branch of
      None \<Rightarrow> Inr a3
    | Some b \<Rightarrow> analyzeBlockStatement a3 b)))"
| "analyzeElifBranches a [] = Inr a"
| "analyzeElifBranches a (elif_branch # rest) =
    andThen (analyzeIfConditional a elif_branch) (\<lambda>a1. analyzeElifBranches a1 rest)"
| "analyzeCaseBranches a [] = Inr a"
| "analyzeCaseBranches a (Conditional s e condition then_branch # rest) =
    andThen (analyzeBlockStatement a then_branch) (\<lambda>a1. analyzeCaseBranches a1 rest)"

text \<open>\<open>Analyzer::analyze\<close>.\<close>

definition analyze :: "Analyzer \<Rightarrow> Program \<Rightarrow> Fault + Analyzer" where
  "analyze a program =
    andThen (analyzeStatements (enterScope ''global'' SkGlobal a) (statements program))
      (\<lambda>a1. Inr (exitScope a1))"

section \<open>Parser (parser.h, parser.cpp)\<close>

text \<open>
  The parser object: the token vector, the index of the current token, a copy of the last
  consumed token and, as \<open>parser_log\<close>, the diagnostics that \<open>err.log()\<close> has written,
  oldest first.  The pointers stored in the token vector are never null.
\<close>

record Parser =
  tokens :: "Token list"
  index_p :: nat
  last_token :: Token
  parser_log :: "Diagnostic list"

type_synonym 'a PResult = "Fault + ('a \<times> Parser)"

definition deref :: "'a option \<Rightarrow> Fault + 'a" where
  "deref ptr = (case ptr of None \<Rightarrow> Inl NullDereference | Some v \<Rightarrow> Inr v)"

definition tokenKindName :: "TokenKind \<Rightarrow> string" where
  "tokenKindName kind =
    (case kind of
       TokNone \<Rightarrow> ''None'' | TokInteger \<Rightarrow> ''Integer'' | TokFloat \<Rightarrow> ''Float''
     | TokBoolean \<Rightarrow> ''Boolean'' | TokCharacter \<Rightarrow> ''Character'' | TokString \<Rightarrow> ''String''
     | TokIdentifier \<Rightarrow> ''Identifier'' | TokKeyword \<Rightarrow> ''Keyword''
     | TokOperator \<Rightarrow> ''Operator'' | TokDelimiter \<Rightarrow> ''Delimiter'' | TokEof \<Rightarrow> ''Eof'')"

definition Parser_log :: "ErrorLevel \<Rightarrow> string \<Rightarrow> Locus \<Rightarrow> Locus \<Rightarrow> Parser \<Rightarrow> Parser" where
  "Parser_log lv msg s e p = p\<lparr>parser_log := parser_log p @ [mkError lv msg s e]\<rparr>"

definition Parser_isEof :: "Parser \<Rightarrow> bool" where
  "Parser_isEof p =
    (if index_p p \<ge> length (tokens p) then True
     else if index_p p = length (tokens p) - 1 then tok_value (tokens p ! index_p p) = []
     else False)"

definition Parser_peek :: "Parser \<Rightarrow> Token option" where
  "Parser_peek p = (if Parser_isEof p then None else Some (tokens p ! index_p p))"

definition Parser_look :: "Parser \<Rightarrow> nat \<Rightarrow> Token option" where
  "Parser_look p offset =
    (if index_p p + offset \<ge> length (tokens p) then None
     else Some (tokens p ! (index_p p + offset)))"

definition Parser_advance :: "Parser \<Rightarrow> Token option \<times> Parser" where
  "Parser_advance p =
    (if Parser_isEof p then (None, p)
     else
       (Some (tokens p ! index_p p),
        p\<lparr>last_token := tokens p ! index_p p, index_p := index_p p + 1\<rparr>))"

text \<open>
  \<open>expectToken\<close> reads \<open>tok->kind\<close> before it asks \<open>isEof()\<close>, so it dereferences a
  null pointer at the end of the input.  The \<open>message\<close> parameter of the two \<open>expect\<close>
  functions only feeds the help text, which the diagnostics here do not carry.
\<close>

definition expectToken :: "TokenKind \<Rightarrow> Parser \<Rightarrow> Token option PResult" where
  "expectToken kind p =
    andThen (deref (Parser_peek p)) (\<lambda>tok.
    let p1 = (if tok_kind tok \<noteq> kind \<or> Parser_isEof p
              then Parser_log Error
                     (''Unexpected token: '' @ [CHR 0x27] @ tokenKindName (tok_kind tok) @
                        [CHR 0x27])
                     (tok_start tok) (tok_end tok) p
              else p)
    in Inr (Parser_advance p1))"

definition expectValue :: "string \<Rightarrow> Parser \<Rightarrow> Token option \<times> Parser" where
  "expectValue v p =
    (if Parser_isEof p then
       (None, Parser_log Error ''Unexpected end of input'' (mkLocus 1 1 0) (mkLocus 1 1 0) p)
     else
       let p1 =
         (case Parser_peek p of
            None \<Rightarrow>
              Parser_log Error (''Unexpected value: '' @ [CHR 0x27] @ ''null'' @ [CHR 0x27])
                (mkLocus 1 1 0) (mkLocus 1 1 0) p
          | Some tok \<Rightarrow>
              if tok_value tok \<noteq> v
              then Parser_log Error
                     (''Unexpected value: '' @ [CHR 0x27] @ tok_value tok @ [CHR 0x27])
                     (tok_start tok) (tok_end tok) p
              else p)
       in Parser_advance p1)"

definition checkToken :: "TokenKind \<Rightarrow> Parser \<Rightarrow> bool" where
  "checkToken kind p =
    (case Parser_peek p of
       None \<Rightarrow> False
     | Some tok \<Rightarrow> \<not> Parser_isEof p \<and> tok_kind tok = kind)"

definition checkValue :: "string \<Rightarrow> Parser \<Rightarrow> bool" where
  "checkValue v p =
    (case Parser_peek p of
       None \<Rightarrow> False
     | Some tok \<Rightarrow> \<not> Parser_isEof p \<and> tok_value tok = v)"

definition matchToken :: "TokenKind \<Rightarrow> Parser \<Rightarrow> bool \<times> Parser" where
  "matchToken kind p =
    (if checkToken kind p then (True, snd (Parser_advance p)) else (False, p))"

definition matchValue :: "string \<Rightarrow> Parser \<Rightarrow> bool \<times> Parser" where
  "matchValue v p =
    (if checkValue v p then (True, snd (Parser_advance p)) else (False, p))"

text \<open>
  \<open>matchValue(v1) || matchValue(v2) || ...\<close>: the first value that matches is consumed;
  a failed match leaves the parser as it was.
\<close>

fun matchAny :: "string list \<Rightarrow> Parser \<Rightarrow> bool \<times> Parser" where
  "matchAny [] p = (False, p)"
| "matchAny (v # vs) p =
    (case matchValue v p of
       (True, p1) \<Rightarrow> (True, p1)
     | (False, p1) \<Rightarrow> matchAny vs p1)"

text \<open>\<open>this->tokens_[this->index_ - 1]\<close>, read right after a successful match.\<close>

definition previous :: "Parser \<Rightarrow> Token" where
  "previous p = tokens p ! (index_p p - 1)"

subsection \<open>Expressions\<close>

text \<open>
  The expression functions call each other recursively and loop without a bound of their
  own.  In the model the recursive entry point \<open>parseExpression\<close> is the parameter
  \<open>expr\<close> of the other functions, and every loop carries an iteration budget \<open>fuel\<close>;
  \<open>parseExpression\<close> itself recurses on the budget.  Running out of it is the fault
  \<open>OutOfFuel\<close>.
\<close>

type_synonym ExprParser = "Parser \<Rightarrow> Expression option PResult"

text \<open>
  \<open>do { x = parseExpression(); v.push_back(std::move(x)); } while (matchValue(","));\<close>,
  the loop that collects call arguments and array elements.
\<close>

primrec expressionList ::
  "nat \<Rightarrow> ExprParser \<Rightarrow> Expression option list \<Rightarrow> Parser \<Rightarrow> Expression option list PResult"
  where
  "expressionList 0 expr acc p = Inl OutOfFuel"
| "expressionList (Suc fuel) expr acc p =
    andThen (expr p) (\<lambda>(x, p1).
    case matchValue '','' p1 of
      (True, p2) \<Rightarrow> expressionList fuel expr (acc @ [x]) p2
    | (False, p2) \<Rightarrow> Inr (acc @ [x], p2))"

definition literalAt :: "Parser \<Rightarrow> LiteralType \<Rightarrow> Expression option PResult" where
  "literalAt p t =
    (let token = previous p
     in Inr (Some (LiteralExpression (tok_start token) (tok_end token) (tok_value token) t), p))"

definition parsePrimary :: "nat \<Rightarrow> ExprParser \<Rightarrow> Parser \<Rightarrow> Expression option PResult" where
  "parsePrimary fuel expr p =
    (if fst (matchValue ''true'' p) then
       (let p1 = snd (matchValue ''true'' p); token = previous p1
        in Inr (Some (LiteralExpression (tok_start token) (tok_end token) ''true'' LitBoolean),
                p1))
     else if fst (matchValue ''false'' p) then
       (let p1 = snd (matchValue ''false'' p); token = previous p1
        in Inr (Some (LiteralExpression (tok_start token) (tok_end token) ''false'' LitBoolean),
                p1))
     else if fst (matchValue ''this'' p) then
       (let p1 = snd (matchValue ''this'' p); token = previous p1
        in Inr (Some (IdentifierExpression (tok_start token) (tok_end token)
                        (tok_value token)), p1))
     else if fst (matchToken TokInteger p) then
       literalAt (snd (matchToken TokInteger p)) LitInteger
     else if fst (matchToken TokFloat p) then
       literalAt (snd (matchToken TokFloat p)) LitFloat
     else if fst (matchToken TokString p) then
       literalAt (snd (matchToken TokString p)) LitString
     else if fst (matchToken TokCharacter p) then
       literalAt (snd (matchToken TokCharacter p)) LitCharacter
     else if fst (matchToken TokIdentifier p) then
       (let p1 = snd (matchToken TokIdentifier p); token = previous p1
        in Inr (Some (IdentifierExpression (tok_start token) (tok_end token)
                        (tok_value token)), p1))
     else if fst (matchValue ''('' p) then
       andThen (expr (snd (matchValue ''('' p))) (\<lambda>(x, p1).
       Inr (x, snd (expectValue '')'' p1)))
     else if fst (matchValue ''['' p) then
       (let p1 = snd (matchValue ''['' p) in
        andThen
          (if \<not> checkValue '']'' p1 then expressionList fuel expr [] p1 else Inr ([], p1))
          (\<lambda>(elements, p2).
          case expectValue '']'' p2 of
            (rightBracket, p3) \<Rightarrow>
              andThen (deref rightBracket) (\<lambda>rb.
              Inr (Some (ArrayExpression (tok_start (last_token p3)) (tok_end rb) elements),
                   p3))))
     else if Parser_isEof p \<or>
             (case Parser_peek p of None \<Rightarrow> False | Some tok \<Rightarrow> tok_value tok = [])
     then Inr (None, p)
     else
       (let s = (case Parser_peek p of None \<Rightarrow> mkLocus 0 0 0 | Some tok \<Rightarrow> tok_start tok);
            e = (case Parser_peek p of None \<Rightarrow> mkLocus 0 0 0 | Some tok \<Rightarrow> tok_end tok)
        in Inr (None, snd (Parser_advance (Parser_log Error ''Unexpected token'' s e p)))))"

text \<open>
  The loop of \<open>parsePostfix\<close>.  Building a node reads \<open>expr->start\<close> and the end of the
  closing token or of the sub-expression, which is a null dereference when that pointer
  is null.
\<close>

primrec postfixLoop ::
  "nat \<Rightarrow> ExprParser \<Rightarrow> Expression option \<Rightarrow> Parser \<Rightarrow> Expression option PResult" where
  "postfixLoop 0 expr x p = Inl OutOfFuel"
| "postfixLoop (Suc fuel) expr x p =
    (if fst (matchValue ''('' p) then
       (let p1 = snd (matchValue ''('' p) in
        andThen
          (if \<not> checkValue '')'' p1 then expressionList fuel expr [] p1 else Inr ([], p1))
          (\<lambda>(args, p2).
          case expectValue '')'' p2 of
            (rightParen, p3) \<Rightarrow>
              andThen (deref x) (\<lambda>callee.
              andThen (deref rightParen) (\<lambda>rp.
              postfixLoop fuel expr
                (Some (CallExpression (expr_start callee) (tok_end rp) callee args)) p3))))
     else if fst (matchAny [''++'', ''--''] p) then
       (let p1 = snd (matchAny [''++'', ''--''] p); opToken = previous p1 in
        andThen (deref x) (\<lambda>operand.
        postfixLoop fuel expr
          (Some (UnaryExpression (expr_start operand) (tok_end opToken) (tok_value opToken)
                   operand)) p1))
     else if fst (matchValue ''.'' p) then
       andThen (expr (snd (matchValue ''.'' p))) (\<lambda>(attribute, p1).
       andThen (deref x) (\<lambda>object.
       andThen (deref attribute) (\<lambda>attr.
       postfixLoop fuel expr
         (Some (AttributeExpression (expr_start object) (expr_end attr) object attr)) p1)))
     else if fst (matchValue ''['' p) then
       andThen (expr (snd (matchValue ''['' p))) (\<lambda>(idx, p1).
       let p2 = snd (expectValue '']'' p1) in
       andThen (deref x) (\<lambda>array.
       andThen (deref idx) (\<lambda>i.
       postfixLoop fuel expr
         (Some (IndexExpression (expr_start array) (expr_end i) array i)) p2)))
     else Inr (x, p))"

definition parsePostfix :: "nat \<Rightarrow> ExprParser \<Rightarrow> Parser \<Rightarrow> Expression option PResult" where
  "parsePostfix fuel expr p =
    andThen (parsePrimary fuel expr p) (\<lambda>(x, p1). postfixLoop fuel expr x p1)"

primrec parseUnary :: "nat \<Rightarrow> ExprParser \<Rightarrow> Parser \<Rightarrow> Expression option PResult" where
  "parseUnary 0 expr p = Inl OutOfFuel"
| "parseUnary (Suc fuel) expr p =
    (if fst (matchAny [''!'', ''-''] p) then
       (let p1 = snd (matchAny [''!'', ''-''] p); opToken = previous p1 in
        andThen (parseUnary fuel expr p1) (\<lambda>(right, p2).
        andThen (deref right) (\<lambda>r.
        Inr (Some (UnaryExpression (tok_start opToken) (expr_end r) (tok_value opToken) r),
             p2))))
     else parsePostfix fuel expr p)"

text \<open>
  The six left-associative levels share one loop shape:
  \<open>while (matchValue(op1) || ...) { opToken = tokens_[index_ - 1]; right = operand();
  expr = Binary(expr->start, right->end, expr, opToken->value, right); }\<close>.
\<close>

primrec binaryLoop ::
  "nat \<Rightarrow> string list \<Rightarrow> ExprParser \<Rightarrow> Expression option \<Rightarrow> Parser \<Rightarrow>
   Expression option PResult" where
  "binaryLoop 0 ops operand x p = Inl OutOfFuel"
| "binaryLoop (Suc fuel) ops operand x p =
    (if fst (matchAny ops p) then
       (let p1 = snd (matchAny ops p); opToken = previous p1 in
        andThen (operand p1) (\<lambda>(right, p2).
        andThen (deref x) (\<lambda>l.
        andThen (deref right) (\<lambda>r.
        binaryLoop fuel ops operand
          (Some (BinaryExpression (expr_start l) (expr_end r) l (tok_value opToken) r)) p2))))
     else Inr (x, p))"

definition parseFactor :: "nat \<Rightarrow> ExprParser \<Rightarrow> Parser \<Rightarrow> Expression option PResult" where
  "parseFactor fuel expr p =
    andThen (parseUnary fuel expr p) (\<lambda>(x, p1).
    binaryLoop fuel [''*'', ''/'', ''%''] (parseUnary fuel expr) x p1)"

definition parseTerm :: "nat \<Rightarrow> ExprParser \<Rightarrow> Parser \<Rightarrow> Expression option PResult" where
  "parseTerm fuel expr p =
    andThen (parseFactor fuel expr p) (\<lambda>(x, p1).
    binaryLoop fuel [''+'', ''-''] (parseFactor fuel expr) x p1)"

definition parseComparison :: "nat \<Rightarrow> ExprParser \<Rightarrow> Parser \<Rightarrow> Expression option PResult" where
  "parseComparison fuel expr p =
    andThen (parseTerm fuel expr p) (\<lambda>(x, p1).
    binaryLoop fuel [''<'', ''>'', ''<='', ''>='', ''..'', ''...''] (parseTerm fuel expr) x p1)"

definition parseEquality :: "nat \<Rightarrow> ExprParser \<Rightarrow> Parser \<Rightarrow> Expression option PResult" where
  "parseEquality fuel expr p =
    andThen (parseComparison fuel expr p) (\<lambda>(x, p1).
    binaryLoop fuel [''=='', ''!=''] (parseComparison fuel expr) x p1)"

definition parseLogicalAnd :: "nat \<Rightarrow> ExprParser \<Rightarrow> Parser \<Rightarrow> Expression option PResult" where
  "parseLogicalAnd fuel expr p =
    andThen (parseEquality fuel expr p) (\<lambda>(x, p1).
    binaryLoop fuel [''&&''] (parseEquality fuel expr) x p1)"

definition parseLogicalOr :: "nat \<Rightarrow> ExprParser \<Rightarrow> Parser \<Rightarrow> Expression option PResult" where
  "parseLogicalOr fuel expr p =
    andThen (parseLogicalAnd fuel expr p) (\<lambda>(x, p1).
    binaryLoop fuel [''||''] (parseLogicalAnd fuel expr) x p1)"

definition parseAssignment :: "nat \<Rightarrow> ExprParser \<Rightarrow> Parser \<Rightarrow> Expression option PResult" where
  "parseAssignment fuel expr p =
    andThen (parseLogicalOr fuel expr p) (\<lambda>(x, p1).
    if fst (matchValue ''='' p1) then
      andThen (expr (snd (matchValue ''='' p1))) (\<lambda>(right, p2).
      andThen (deref x) (\<lambda>l.
      andThen (deref right) (\<lambda>r.
      Inr (Some (BinaryExpression (expr_start l) (expr_end r) l ''='' r), p2))))
    else Inr (x, p1))"

primrec parseExpression :: "nat \<Rightarrow> Parser \<Rightarrow> Expression option PResult" where
  "parseExpression 0 p = Inl OutOfFuel"
| "parseExpression (Suc fuel) p = parseAssignment fuel (parseExpression fuel) p"

subsection \<open>Statements\<close>

text \<open>
  As for expressions: \<open>stmt\<close> stands for the recursive entry point
  \<open>parseStatement\<close>, \<open>expr\<close> for \<open>parseExpression\<close>, and the loops run on \<open>fuel\<close>.
\<close>

type_synonym StmtParser = "Parser \<Rightarrow> Statement option PResult"

text \<open>
  The statement loop of \<open>parseProgram\<close> (\<open>in_block = False\<close>) and of \<open>parseBlock\<close>
  (\<open>in_block = True\<close>, which also stops at a closing brace): a statement is kept, and
  after a null result one token is skipped.
\<close>

primrec statementLoop ::
  "nat \<Rightarrow> bool \<Rightarrow> StmtParser \<Rightarrow> Statement list \<Rightarrow> Parser \<Rightarrow> Statement list PResult" where
  "statementLoop 0 in_block stmt acc p = Inl OutOfFuel"
| "statementLoop (Suc fuel) in_block stmt acc p =
    (if \<not> Parser_isEof p \<and> \<not> (in_block \<and> checkValue ''}'' p) then
       andThen (stmt p) (\<lambda>(s, p1).
       case s of
         Some st \<Rightarrow> statementLoop fuel in_block stmt (acc @ [st]) p1
       | None \<Rightarrow> statementLoop fuel in_block stmt acc (snd (Parser_advance p1)))
     else Inr (acc, p))"

definition parseBlock :: "nat \<Rightarrow> StmtParser \<Rightarrow> Parser \<Rightarrow> BlockStatement PResult" where
  "parseBlock fuel stmt p =
    (case expectValue ''{'' p of
       (leftBrace, p1) \<Rightarrow>
         andThen (statementLoop fuel True stmt [] p1) (\<lambda>(stmts, p2).
         case expectValue ''}'' p2 of
           (rightBrace, p3) \<Rightarrow>
             andThen (deref leftBrace) (\<lambda>lb.
             andThen (deref rightBrace) (\<lambda>rb.
             Inr (BlockStatement (tok_start lb) (tok_end rb) stmts, p3)))))"

definition parseReturn :: "ExprParser \<Rightarrow> Parser \<Rightarrow> Statement PResult" where
  "parseReturn expr p =
    (case expectValue ''return'' p of
       (returnToken, p1) \<Rightarrow>
         if fst (matchValue '';'' p1) then
           andThen (deref returnToken) (\<lambda>rt.
           Inr (ReturnStatement (tok_start rt) (tok_end rt) None, snd (matchValue '';'' p1)))
         else
           andThen (expr p1) (\<lambda>(x, p2).
           let p3 = snd (expectValue '';'' p2) in
           andThen (deref returnToken) (\<lambda>rt.
           andThen (deref x) (\<lambda>e.
           Inr (ReturnStatement (tok_start rt) (expr_end e) (Some e), p3)))))"

definition parseBreak :: "Parser \<Rightarrow> Statement PResult" where
  "parseBreak p =
    (case expectValue ''break'' p of
       (breakToken, p1) \<Rightarrow>
         case expectValue '';'' p1 of
           (semicolonToken, p2) \<Rightarrow>
             andThen (deref breakToken) (\<lambda>bt.
             andThen (deref semicolonToken) (\<lambda>sc.
             Inr (BreakStatement (tok_start bt) (tok_end sc), p2))))"

definition parseContinue :: "Parser \<Rightarrow> Statement PResult" where
  "parseContinue p =
    (case expectValue ''continue'' p of
       (continueToken, p1) \<Rightarrow>
         case expectValue '';'' p1 of
           (semicolonToken, p2) \<Rightarrow>
             andThen (deref continueToken) (\<lambda>ct.
             andThen (deref semicolonToken) (\<lambda>sc.
             Inr (ContinueStatement (tok_start ct) (tok_end sc), p2))))"

text \<open>
  \<open>parseExpressionStatement\<close>: the result of \<open>expectValue\<close> is dereferenced without
  a test.
\<close>

definition parseExpressionStatement :: "ExprParser \<Rightarrow> Parser \<Rightarrow> Statement option PResult" where
  "parseExpressionStatement expr p =
    andThen (expr p) (\<lambda>(x, p1).
    case x of
      None \<Rightarrow> Inr (None, p1)
    | Some e \<Rightarrow>
        case expectValue '';'' p1 of
          (semicolonToken, p2) \<Rightarrow>
            andThen (deref semicolonToken) (\<lambda>sc.
            Inr (Some (ExpressionStatement (expr_start e) (tok_end sc) e), p2)))"

text \<open>
  The \<open>while (ismod(peek()->value))\<close> loop of \<open>parseModifier\<close>; it consumes a token
  in every iteration.
\<close>

function modifierLoop :: "nat \<Rightarrow> Locus \<Rightarrow> Parser \<Rightarrow> (nat \<times> Locus) PResult" where
  "modifierLoop m e p =
    (case Parser_peek p of
       None \<Rightarrow> Inl NullDereference
     | Some tok \<Rightarrow>
         if ismod (tok_value tok) then
           (case Parser_advance p of
              (None, p1) \<Rightarrow> Inl NullDereference
            | (Some modToken, p1) \<Rightarrow>
                modifierLoop (m OR getmod (tok_value modToken)) (tok_end modToken) p1)
         else Inr ((m, e), p))"
  by pat_completeness auto
termination
  apply (relation "measure (\<lambda>(m, e, p). length (tokens p) - index_p p)")
   apply simp
  apply (auto simp: Parser_peek_def Parser_advance_def Parser_isEof_def split: if_splits)
  done

declare modifierLoop.simps [simp del]

definition parseModifier :: "Parser \<Rightarrow> ModifierStatement PResult" where
  "parseModifier p =
    andThen (deref (Parser_peek p)) (\<lambda>first.
    andThen
      (if isacc (tok_value first) then
         (case Parser_advance p of
            (accToken, p') \<Rightarrow>
              andThen (deref accToken) (\<lambda>t. Inr (getacc (tok_value t), p')))
       else Inr (Private, p))
      (\<lambda>(acc, p1).
      andThen (modifierLoop Modifier_None (tok_start first) p1) (\<lambda>((m, end'), p2).
      Inr (mkModifierStatement (tok_start first) end' acc m, p2))))"

text \<open>
  The type expression after the type name, as \<open>parseVariable\<close> and \<open>parseFunction\<close>
  build it (the block occurs five times in the source): an optional \<open>[size]\<close> makes an
  \<open>ArrayIdentifierExpression\<close>, with the literal \<open>-1\<close> for empty brackets.
\<close>

definition parseTypeExpression :: "ExprParser \<Rightarrow> Token \<Rightarrow> Parser \<Rightarrow> Expression PResult" where
  "parseTypeExpression expr typeIdentifierToken p =
    (if fst (matchValue ''['' p) then
       (let p1 = snd (matchValue ''['' p) in
        andThen
          (if checkValue '']'' p1 then
             Inr (Some (LiteralExpression (tok_start typeIdentifierToken)
                          (tok_end typeIdentifierToken) ''-1'' LitInteger), p1)
           else expr p1)
          (\<lambda>(size', p2).
          Inr (ArrayIdentifierExpression (tok_start typeIdentifierToken)
                 (tok_end typeIdentifierToken) (tok_value typeIdentifierToken) size',
               snd (expectValue '']'' p2))))
     else
       Inr (IdentifierExpression (tok_start typeIdentifierToken) (tok_end typeIdentifierToken)
              (tok_value typeIdentifierToken), p))"

text \<open>
  The optional initializer and the optional terminating semicolon of \<open>parseVariable\<close>
  (the block occurs four times in the source).
\<close>

definition parseInitializer :: "ExprParser \<Rightarrow> bool \<Rightarrow> Parser \<Rightarrow> Expression option PResult" where
  "parseInitializer expr semicolon p =
    andThen
      (if fst (matchValue ''='' p) then expr (snd (matchValue ''='' p)) else Inr (None, p))
      (\<lambda>(init, p1). Inr (init, if semicolon then snd (expectValue '';'' p1) else p1))"

definition setNullable :: "ModifierStatement \<Rightarrow> ModifierStatement" where
  "setNullable m = m\<lparr>modifier := modifier m OR Modifier_Nullable\<rparr>"

definition parseVariable ::
  "ExprParser \<Rightarrow> bool \<Rightarrow> bool \<Rightarrow> Parser \<Rightarrow> VariableDeclaration PResult" where
  "parseVariable expr verbose semicolon p =
    (let p0 = (if verbose then snd (expectValue ''let'' p) else p) in
     andThen (parseModifier p0) (\<lambda>(modifier', p1).
     andThen (expectToken TokIdentifier p1) (\<lambda>(identifierToken, p2).
     andThen (deref identifierToken) (\<lambda>idTok.
     let identifier = mkIdent (tok_start idTok) (tok_end idTok) (tok_value idTok) in
     if fst (matchValue '':'' p2) then
       andThen (expectToken TokIdentifier (snd (matchValue '':'' p2)))
         (\<lambda>(typeIdentifierToken, p3).
         andThen (deref typeIdentifierToken) (\<lambda>typeTok.
         andThen (parseTypeExpression expr typeTok p3) (\<lambda>(type, p4).
         let modifier'' = (if fst (matchValue ''?'' p4) then setNullable modifier'
                           else modifier');
             p5 = snd (matchValue ''?'' p4)
         in andThen (parseInitializer expr semicolon p5) (\<lambda>(init, p6).
            Inr (mkVariableDeclaration (tok_start idTok)
                   (case init of Some i \<Rightarrow> expr_end i | None \<Rightarrow> expr_end type)
                   identifier type modifier'' init, p6)))))
     else if checkToken TokIdentifier p2 then
       andThen (deref (Parser_peek p2)) (\<lambda>next.
       let p3 = Parser_log Warning ''Type annotation missing ':' in variable declaration''
                  (tok_start next) (tok_end next) p2
       in case Parser_advance p3 of
            (typeIdentifierToken, p4) \<Rightarrow>
              andThen (deref typeIdentifierToken) (\<lambda>typeTok.
              andThen (parseTypeExpression expr typeTok p4) (\<lambda>(type, p5).
              andThen (parseInitializer expr semicolon p5) (\<lambda>(init, p6).
              Inr (mkVariableDeclaration (tok_start idTok)
                     (case init of Some i \<Rightarrow> expr_end i | None \<Rightarrow> expr_end type)
                     identifier type modifier' init, p6)))))
     else
       (let modifier'' = (if fst (matchValue ''?'' p2) then setNullable modifier'
                          else modifier');
            p3 = snd (matchValue ''?'' p2)
        in andThen (parseInitializer expr semicolon p3) (\<lambda>(init, p4).
           Inr (mkVariableDeclaration (tok_start idTok)
                  (case init of Some i \<Rightarrow> expr_end i | None \<Rightarrow> tok_end idTok)
                  identifier
                  (IdentifierExpression (mkLocus 0 0 0) (mkLocus 0 0 0) ''void'')
                  modifier'' init, p4)))))))"

text \<open>
  \<open>do { param = parseVariable(false, false); ... } while (matchValue(","));\<close> in
  \<open>parseFunction\<close> (\<open>parseVariable\<close> never returns null, so the \<open>break\<close> is dead).
\<close>

primrec parameterLoop ::
  "nat \<Rightarrow> ExprParser \<Rightarrow> VariableDeclaration list \<Rightarrow> Parser \<Rightarrow> VariableDeclaration list PResult"
  where
  "parameterLoop 0 expr acc p = Inl OutOfFuel"
| "parameterLoop (Suc fuel) expr acc p =
    andThen (parseVariable expr False False p) (\<lambda>(param, p1).
    case matchValue '','' p1 of
      (True, p2) \<Rightarrow> parameterLoop fuel expr (acc @ [param]) p2
    | (False, p2) \<Rightarrow> Inr (acc @ [param], p2))"

definition parseFunction ::
  "nat \<Rightarrow> StmtParser \<Rightarrow> ExprParser \<Rightarrow> Parser \<Rightarrow> FunctionDeclaration PResult" where
  "parseFunction fuel stmt expr p =
    andThen (parseModifier p) (\<lambda>(modifier', p1).
    let p2 = snd (expectValue ''fn'' p1) in
    andThen (deref (Parser_peek p2)) (\<lambda>next.
    let p3 = (if isacc (tok_value next)
              then Parser_log Error ''Invalid accessor position for function''
                     (tok_start next) (tok_end next) p2
              else p2)
    in
    andThen
      (if hasFlag (modifier modifier') Modifier_Init then
         Inr (mkIdent (mkLocus 0 0 0) (mkLocus 0 0 0) ''init'', p3)
       else
         andThen (expectToken TokIdentifier p3) (\<lambda>(identifierToken, p4).
         andThen (deref identifierToken) (\<lambda>idTok.
         Inr (mkIdent (tok_start idTok) (tok_end idTok) (tok_value idTok), p4))))
      (\<lambda>(identifier, p4).
      let modifier'' = (if fst (matchValue ''?'' p4) then setNullable modifier'
                        else modifier');
          p5 = snd (expectValue ''('' (snd (matchValue ''?'' p4)))
      in
      andThen
        (if \<not> fst (matchValue '')'' p5) then
           andThen (parameterLoop fuel expr [] p5) (\<lambda>(params, p6).
           Inr (params, snd (expectValue '')'' p6)))
         else Inr ([], snd (matchValue '')'' p5)))
        (\<lambda>(parameters', p6).
        andThen
          (if fst (matchValue '':'' p6) then
             andThen (expectToken TokIdentifier (snd (matchValue '':'' p6)))
               (\<lambda>(typeIdentifierToken, p7).
               andThen (deref typeIdentifierToken) (\<lambda>typeTok.
               parseTypeExpression expr typeTok p7))
           else if checkToken TokIdentifier p6 then
             andThen (deref (Parser_peek p6)) (\<lambda>peeked.
             andThen
               (expectToken TokIdentifier
                  (Parser_log Warning ''Type annotation missing ':' in function declaration''
                     (tok_end (last_token p6)) (tok_end peeked) p6))
               (\<lambda>(typeIdentifierToken, p7).
               andThen (deref typeIdentifierToken) (\<lambda>typeTok.
               parseTypeExpression expr typeTok p7)))
           else Inr (IdentifierExpression (mkLocus 0 0 0) (mkLocus 0 0 0) ''void'', p6))
          (\<lambda>(typeIdentifier, p8).
          andThen (parseBlock fuel stmt p8) (\<lambda>(body, p9).
          Inr (FunctionDeclaration (id_start identifier) (block_end body) identifier
                 typeIdentifier modifier'' parameters' body, p9)))))))"

text \<open>The field loop of \<open>parseRecord\<close> (again the \<open>break\<close> is dead).\<close>

primrec fieldLoop ::
  "nat \<Rightarrow> ExprParser \<Rightarrow> VariableDeclaration list \<Rightarrow> Parser \<Rightarrow> VariableDeclaration list PResult"
  where
  "fieldLoop 0 expr acc p = Inl OutOfFuel"
| "fieldLoop (Suc fuel) expr acc p =
    (if \<not> Parser_isEof p \<and> \<not> checkValue ''}'' p then
       andThen (parseVariable expr False True p) (\<lambda>(field, p1).
       fieldLoop fuel expr (acc @ [field]) p1)
     else Inr (acc, p))"

definition parseRecord :: "nat \<Rightarrow> ExprParser \<Rightarrow> Parser \<Rightarrow> RecordDeclaration PResult" where
  "parseRecord fuel expr p =
    andThen (parseModifier (snd (expectValue ''rec'' p))) (\<lambda>(modifier', p1).
    andThen (expectToken TokIdentifier p1) (\<lambda>(identifierToken, p2).
    andThen (fieldLoop fuel expr [] (snd (expectValue ''{'' p2))) (\<lambda>(fields', p3).
    let p4 = snd (expectValue ''}'' p3) in
    andThen (deref identifierToken) (\<lambda>idTok.
    Inr (mkRecordDeclaration (tok_start idTok) (tok_end (last_token p4))
           (mkIdent (tok_start idTok) (tok_end idTok) (tok_value idTok))
           (IdentifierExpression (tok_start idTok) (tok_end idTok) (tok_value idTok))
           modifier' fields', p4)))))"

text \<open>
  \<open>parseClass\<close>.  The inner scan over a run of accessors and modifiers ends at the
  first other token or past the end of the token vector.
\<close>

function scanModifiers :: "Parser \<Rightarrow> nat \<Rightarrow> Token option" where
  "scanModifiers p j =
    (case Parser_look p j of
       None \<Rightarrow> None
     | Some token_j \<Rightarrow>
         if isacc (tok_value token_j) \<or> ismod (tok_value token_j)
         then scanModifiers p (j + 1)
         else Some token_j)"
  by pat_completeness auto
termination
  apply (relation "measure (\<lambda>(p, j). length (tokens p) - (index_p p + j))")
   apply simp
  apply (auto simp: Parser_look_def split: if_splits)
  done

declare scanModifiers.simps [simp del]

primrec classLoop ::
  "nat \<Rightarrow> StmtParser \<Rightarrow> ExprParser \<Rightarrow> nat \<Rightarrow> VariableDeclaration list \<Rightarrow>
   FunctionDeclaration list \<Rightarrow> Parser \<Rightarrow>
   (VariableDeclaration list \<times> FunctionDeclaration list) PResult" where
  "classLoop 0 stmt expr i fs ms p = Inl OutOfFuel"
| "classLoop (Suc fuel) stmt expr i fs ms p =
    (if \<not> Parser_isEof p \<and> \<not> checkValue ''}'' p then
       (let token_i = Parser_look p i;
            skipped = p\<lparr>index_p := index_p p + i\<rparr>
        in
        if (case token_i of None \<Rightarrow> False
            | Some t \<Rightarrow> isacc (tok_value t) \<or> ismod (tok_value t))
        then
          (if (case scanModifiers p i of None \<Rightarrow> False | Some t \<Rightarrow> tok_value t = ''fn'')
           then
             andThen (parseFunction fuel stmt expr skipped) (\<lambda>(method, p1).
             classLoop fuel stmt expr 0 fs (ms @ [method]) p1)
           else
             andThen (parseVariable expr False True skipped) (\<lambda>(field, p1).
             classLoop fuel stmt expr 0 (fs @ [field]) ms p1))
        else if (case token_i of None \<Rightarrow> False | Some t \<Rightarrow> tok_value t = ''fn'') then
          andThen (parseFunction fuel stmt expr skipped) (\<lambda>(method, p1).
          classLoop fuel stmt expr 0 fs (ms @ [method]) p1)
        else classLoop fuel stmt expr (i + 1) fs ms p)
     else Inr ((fs, ms), p))"

definition parseClass ::
  "nat \<Rightarrow> StmtParser \<Rightarrow> ExprParser \<Rightarrow> Parser \<Rightarrow> Declaration PResult" where
  "parseClass fuel stmt expr p =
    andThen (parseModifier (snd (expectValue ''cls'' p))) (\<lambda>(modifier', p1).
    andThen (expectToken TokIdentifier p1) (\<lambda>(identifierToken, p2).
    andThen (classLoop fuel stmt expr 0 [] [] (snd (expectValue ''{'' p2)))
      (\<lambda>((fields', methods'), p3).
      let p4 = snd (expectValue ''}'' p3) in
      andThen (deref identifierToken) (\<lambda>idTok.
      Inr (ClassDeclaration (tok_start idTok) (tok_end (last_token p4))
             (mkIdent (tok_start idTok) (tok_end idTok) (tok_value idTok))
             (IdentifierExpression (tok_start idTok) (tok_end idTok) (tok_value idTok))
             modifier' fields' methods', p4)))))"

text \<open>The \<open>do ... while (matchValue("elif"))\<close> loop of \<open>parseIf\<close>.\<close>

primrec elifLoop ::
  "nat \<Rightarrow> StmtParser \<Rightarrow> ExprParser \<Rightarrow> IfConditional list \<Rightarrow> Parser \<Rightarrow>
   IfConditional list PResult" where
  "elifLoop 0 stmt expr acc p = Inl OutOfFuel"
| "elifLoop (Suc fuel) stmt expr acc p =
    andThen (expr p) (\<lambda>(elifCondition, p1).
    andThen (parseBlock fuel stmt p1) (\<lambda>(elifThenBranch, p2).
    andThen (deref elifCondition) (\<lambda>c.
    let branch = IfConditional (expr_start c) (block_end elifThenBranch) c elifThenBranch
                   [] None
    in case matchValue ''elif'' p2 of
         (True, p3) \<Rightarrow> elifLoop fuel stmt expr (acc @ [branch]) p3
       | (False, p3) \<Rightarrow> Inr (acc @ [branch], p3))))"

definition parseElse ::
  "nat \<Rightarrow> StmtParser \<Rightarrow> Parser \<Rightarrow> BlockStatement option PResult" where
  "parseElse fuel stmt p =
    (if fst (matchValue ''else'' p) then
       andThen (parseBlock fuel stmt (snd (matchValue ''else'' p))) (\<lambda>(b, p1).
       Inr (Some b, p1))
     else Inr (None, p))"

definition parseIf ::
  "nat \<Rightarrow> StmtParser \<Rightarrow> ExprParser \<Rightarrow> Parser \<Rightarrow> IfConditional PResult" where
  "parseIf fuel stmt expr p =
    andThen (expr (snd (expectValue ''if'' p))) (\<lambda>(condition, p1).
    andThen (parseBlock fuel stmt p1) (\<lambda>(thenBranch, p2).
    if fst (matchValue ''elif'' p2) then
      andThen (elifLoop fuel stmt expr [] (snd (matchValue ''elif'' p2)))
        (\<lambda>(elifBranches, p3).
        andThen (parseElse fuel stmt p3) (\<lambda>(elseBranch, p4).
        andThen (deref condition) (\<lambda>c.
        if elseBranch = None \<and> elifBranches = [] then Inl BackOfEmptyVector
        else
          Inr (IfConditional (expr_start c)
                 (case elseBranch of
                    Some b \<Rightarrow> block_end b
                  | None \<Rightarrow> if_end (last elifBranches))
                 c thenBranch elifBranches elseBranch, p4))))
    else
      andThen (parseElse fuel stmt p2) (\<lambda>(elseBranch, p3).
      andThen (deref condition) (\<lambda>c.
      Inr (IfConditional (expr_start c)
             (case elseBranch of Some b \<Rightarrow> block_end b | None \<Rightarrow> block_end thenBranch)
             c thenBranch [] elseBranch, p3)))))"

text \<open>
  The case loop of \<open>parseSwitch\<close>: a \<open>default\<close> branch has a null condition and the
  span of its block, a \<open>case\<close> branch runs from its expression to the end of its block.
\<close>

primrec caseLoop ::
  "nat \<Rightarrow> StmtParser \<Rightarrow> ExprParser \<Rightarrow> Conditional list \<Rightarrow> Parser \<Rightarrow>
   Conditional list PResult" where
  "caseLoop 0 stmt expr cases p = Inl OutOfFuel"
| "caseLoop (Suc fuel) stmt expr cases p =
    (if \<not> Parser_isEof p \<and> \<not> checkValue ''}'' p then
       (if fst (matchValue ''default'' p) then
          andThen (parseBlock fuel stmt (snd (matchValue ''default'' p)))
            (\<lambda>(defaultBlock, p1).
            caseLoop fuel stmt expr
              (cases @
                 [Conditional (block_start defaultBlock) (block_end defaultBlock) None
                    defaultBlock]) p1)
        else
          andThen (expr (snd (expectValue ''case'' p))) (\<lambda>(caseExpression, p1).
          andThen (parseBlock fuel stmt p1) (\<lambda>(caseBlock, p2).
          andThen (deref caseExpression) (\<lambda>c.
          caseLoop fuel stmt expr
            (cases @ [Conditional (expr_start c) (block_end caseBlock) (Some c) caseBlock])
            p2))))
     else Inr (cases, p))"

text \<open>
  \<open>parseSwitch\<close>.  The end of the span is \<open>cases.back()->end\<close>; \<open>back()\<close> of an
  empty vector is undefined.
\<close>

definition parseSwitch ::
  "nat \<Rightarrow> StmtParser \<Rightarrow> ExprParser \<Rightarrow> Parser \<Rightarrow> ConditionalNode PResult" where
  "parseSwitch fuel stmt expr p =
    andThen (expr (snd (expectValue ''switch'' p))) (\<lambda>(switchExpression, p1).
    andThen (caseLoop fuel stmt expr [] (snd (expectValue ''{'' p1))) (\<lambda>(cases, p2).
    let p3 = snd (expectValue ''}'' p2) in
    andThen (deref switchExpression) (\<lambda>sw.
    if cases = [] then Inl BackOfEmptyVector
    else Inr (SwitchConditional (expr_start sw) (cond_end (last cases)) sw cases, p3))))"

definition parseWhile ::
  "nat \<Rightarrow> StmtParser \<Rightarrow> ExprParser \<Rightarrow> Parser \<Rightarrow> ConditionalNode PResult" where
  "parseWhile fuel stmt expr p =
    andThen (expr (snd (expectValue ''while'' p))) (\<lambda>(condition, p1).
    andThen (parseBlock fuel stmt p1) (\<lambda>(body, p2).
    andThen (deref condition) (\<lambda>c.
    Inr (WhileConditional (expr_start c) (block_end body) c body, p2))))"

definition parseFor ::
  "nat \<Rightarrow> StmtParser \<Rightarrow> ExprParser \<Rightarrow> Parser \<Rightarrow> ConditionalNode PResult" where
  "parseFor fuel stmt expr p =
    (let p1 = snd (expectValue ''('' (snd (expectValue ''for'' p))) in
     if checkValue ''let'' p1 then
       andThen (parseVariable expr False True p1) (\<lambda>(init, p2).
       andThen (expr p2) (\<lambda>(condition, p3).
       let p4 = snd (expectValue '';'' p3) in
       andThen
         (if \<not> fst (matchValue '')'' p4) then
            andThen (expr p4) (\<lambda>(inc, p5). Inr (inc, snd (expectValue '')'' p5)))
          else Inr (None, snd (matchValue '')'' p4)))
         (\<lambda>(increment, p5).
         andThen (parseBlock fuel stmt p5) (\<lambda>(body, p6).
         Inr (ForConditional (vd_start init) (block_end body) (Some (VariableDecl init))
                condition increment body, p6)))))
     else if checkToken TokIdentifier p1 \<and>
             (case Parser_look p1 1 of None \<Rightarrow> True | Some t \<Rightarrow> tok_value t = '':'')
     then
       andThen (deref (Parser_look p1 1)) (\<lambda>colon.
       andThen (parseVariable expr False False p1) (\<lambda>(init, p2).
       andThen (expr (snd (expectValue ''in'' p2))) (\<lambda>(iterable, p3).
       andThen (parseBlock fuel stmt (snd (expectValue '')'' p3))) (\<lambda>(body, p4).
       Inr (ForConditional (vd_start init) (block_end body) (Some (VariableDecl init))
              None iterable body, p4)))))
     else
       andThen (expr p1) (\<lambda>(condition, p2).
       andThen (parseBlock fuel stmt (snd (expectValue '')'' p2))) (\<lambda>(body, p3).
       andThen (deref condition) (\<lambda>c.
       Inr (ForConditional (expr_start c) (block_end body) None (Some c) None body, p3)))))"

text \<open>
  The dispatch of \<open>parseStatement\<close> on the lexeme of the current token.  The test for
  an accessor reads \<open>peek()->value\<close> without a null test.
\<close>

definition wrap :: "('a \<Rightarrow> Statement) \<Rightarrow> 'a PResult \<Rightarrow> Statement option PResult" where
  "wrap f r = andThen r (\<lambda>(x, p). Inr (Some (f x), p))"

definition parseStatementOf ::
  "nat \<Rightarrow> StmtParser \<Rightarrow> ExprParser \<Rightarrow> Parser \<Rightarrow> Statement option PResult" where
  "parseStatementOf fuel stmt expr p =
    (if checkValue ''return'' p then wrap id (parseReturn expr p)
     else if checkValue ''break'' p then wrap id (parseBreak p)
     else if checkValue ''continue'' p then wrap id (parseContinue p)
     else if checkValue ''{'' p then wrap BlockStmt (parseBlock fuel stmt p)
     else if checkValue ''let'' p then
       wrap (\<lambda>v. DeclarationStmt (VariableDecl v)) (parseVariable expr True True p)
     else if checkValue ''fn'' p then
       wrap (\<lambda>f. DeclarationStmt (FunctionDecl f)) (parseFunction fuel stmt expr p)
     else
       andThen (deref (Parser_peek p)) (\<lambda>tok.
       if isacc (tok_value tok) then
         wrap (\<lambda>f. DeclarationStmt (FunctionDecl f)) (parseFunction fuel stmt expr p)
       else if checkValue ''rec'' p then
         wrap (\<lambda>r. DeclarationStmt (RecordDecl r)) (parseRecord fuel expr p)
       else if checkValue ''cls'' p then wrap DeclarationStmt (parseClass fuel stmt expr p)
       else if checkValue ''if'' p then
         wrap (\<lambda>i. ConditionalStmt (IfCond i)) (parseIf fuel stmt expr p)
       else if checkValue ''switch'' p then
         wrap ConditionalStmt (parseSwitch fuel stmt expr p)
       else if checkValue ''while'' p then wrap ConditionalStmt (parseWhile fuel stmt expr p)
       else if checkValue ''for'' p then wrap ConditionalStmt (parseFor fuel stmt expr p)
       else parseExpressionStatement expr p))"

primrec parseStatement :: "nat \<Rightarrow> Parser \<Rightarrow> Statement option PResult" where
  "parseStatement 0 p = Inl OutOfFuel"
| "parseStatement (Suc fuel) p =
    parseStatementOf fuel (parseStatement fuel) (parseExpression fuel) p"

definition parseProgram :: "nat \<Rightarrow> Parser \<Rightarrow> Program PResult" where
  "parseProgram fuel p =
    andThen (statementLoop fuel False (parseStatement fuel) [] p) (\<lambda>(stmts, p1).
    Inr (\<lparr>prog_start = (if stmts = [] then mkLocus 1 1 0 else stmt_start (hd stmts)),
          prog_end = (if stmts = [] then mkLocus 1 1 0 else stmt_end (last stmts)),
          statements = stmts\<rparr>, p1))"

text \<open>
  \<open>Parser::parse\<close> on a freshly constructed parser: lex the source, then parse the
  program from the first token.  What the lexer logged is on the same error stream.
  The lexer always returns (see the lexer properties below), so the \<open>None\<close> case, which
  stands for a lexer that runs forever, is never taken.
\<close>

definition default_Token :: Token where
  "default_Token = mkToken TokNone [] (mkLocus 1 1 0) (mkLocus 1 1 0)"

definition new_Parser :: "Token list \<Rightarrow> Diagnostic list \<Rightarrow> Parser" where
  "new_Parser toks lg =
    \<lparr>tokens = toks, index_p = 0, last_token = default_Token, parser_log = lg\<rparr>"

definition parse :: "nat \<Rightarrow> string \<Rightarrow> Program PResult" where
  "parse fuel src =
    (case Lexer_lex (new_Lexer src) src of
       None \<Rightarrow> Inl OutOfFuel
     | Some (toks, l) \<Rightarrow> parseProgram fuel (new_Parser toks (logged l)))"

section \<open>Driver (compiler.cpp)\<close>

text \<open>
  \<open>Compiler::compileSource\<close>: parse, then analyze with a fresh analyzer.  The result
  here is the analyzer, whose error list decides the exit code.
\<close>

definition compileSource :: "nat \<Rightarrow> string \<Rightarrow> Fault + Analyzer" where
  "compileSource fuel src =
    andThen (parse fuel src) (\<lambda>(program, p). analyze new_Analyzer program)"

text \<open>The position at byte \<open>i\<close> of a source that has a single line.\<close>

definition col :: "nat \<Rightarrow> Locus" where
  "col i = mkLocus 1 (i + 1) i"

section \<open>Projections used in the parser and analyzer proofs\<close>

text \<open>A case branch whose span ends where its block ends.\<close>

fun branch_ok :: "Conditional \<Rightarrow> bool" where
  "branch_ok (Conditional s e c b) = (e = block_end b)"

text \<open>
  The initializers of the \<open>VariableDeclaration\<close> nodes that a top-level declaration
  holds as members: the fields of a record or class, the parameters of a function.
\<close>

fun member_initializers :: "Statement \<Rightarrow> Expression option list" where
  "member_initializers (DeclarationStmt (RecordDecl r)) = map initializer (rd_fields r)"
| "member_initializers
     (DeclarationStmt (ClassDeclaration s e ident type mods field_decls method_decls)) =
    map initializer field_decls"
| "member_initializers
     (DeclarationStmt (FunctionDecl (FunctionDeclaration s e ident type mods params body))) =
    map initializer params"
| "member_initializers stmt = []"

section \<open>Verified properties: operator length\<close>

lemma opLen_one_char:
  "opLen [c] = (if c \<in> set oneCharOps then 1 else 0)"
  by (simp add: opLen_def charAt_def oneCharOps_def single_def NUL_def)

lemma opLen_two_chars:
  "opLen (c # d # r) =
    (if [c, d] \<in> set twoCharOps then 2
     else if c \<in> set oneCharOps \<and> d = NUL then 1 else 0)"
proof -
  consider "c = CHR ''+''" | "c = CHR ''-''" | "c = CHR ''*''" | "c = CHR ''/''"
    | "c = CHR ''%''" | "c = CHR ''=''" | "c = CHR ''!''" | "c = CHR ''<''"
    | "c = CHR ''>''" | "c = CHR ''.''" | "c = CHR ''&''" | "c = CHR ''|''"
    | "c = CHR ''?''" | "c = CHR ''^''" | "c = CHR ''~''" | "c \<notin> set oneCharOps"
    by (auto simp: oneCharOps_def)
  then show ?thesis
    by cases
      (simp_all add: opLen_def charAt_def twoCharOps_def oneCharOps_def single_def NUL_def)
qed

text \<open>
  C4 (as stated, refuted).  The string \<open>+a\<close> begins with the single-character operator
  \<open>+\<close>, and \<open>a\<close> does not form a two-character operator with it, yet \<open>opLen\<close>
  returns 0 and not 1.
\<close>

theorem opLen_plus_a_counterexample:
  "hd ''+a'' \<in> set oneCharOps \<and> take 2 ''+a'' \<notin> set twoCharOps \<and> opLen ''+a'' = 0"
  by (simp add: opLen_two_chars oneCharOps_def twoCharOps_def NUL_def)

text \<open>
  C4 (amended).  \<open>opLen\<close> returns 2 when the string begins with one of the two-character
  operators; it returns 1 when the string begins with one of the single-character operators
  and that character is the whole string or is followed by a NUL character; it returns 0
  in every other case.
\<close>

theorem opLen_characterisation:
  "opLen str =
    (if take 2 str \<in> set twoCharOps then 2
     else if str \<noteq> [] \<and> hd str \<in> set oneCharOps \<and> charAt str 1 = NUL then 1
     else 0)"
proof (cases str)
  case Nil
  then show ?thesis by (simp add: opLen_def twoCharOps_def)
next
  case (Cons c rest)
  show ?thesis
  proof (cases rest)
    case Nil
    with Cons show ?thesis
      by (simp add: opLen_one_char charAt_def twoCharOps_def)
  next
    case (Cons d r)
    with \<open>str = c # rest\<close> show ?thesis
      by (simp add: opLen_two_chars charAt_def)
  qed
qed

section \<open>Verified properties: type promotion\<close>

lemma float_sizes_differ:
  "isFloatingPoint a \<Longrightarrow> isFloatingPoint b \<Longrightarrow> ty_kind a \<noteq> ty_kind b \<Longrightarrow>
   size_of a \<noteq> size_of b"
  unfolding isFloatingPoint_def
  by (elim disjE; simp add: size_of_def)

lemma int_not_float: "isInteger a \<Longrightarrow> \<not> isFloatingPoint a"
  unfolding isInteger_def isFloatingPoint_def
  by (elim disjE; simp)

text \<open>
  C5 (as stated, refuted).  \<open>i8\<close> and \<open>u8\<close> are integer types of the same width, so
  each call returns its first argument, and the two results have different names.
\<close>

theorem promote_i8_u8_counterexample:
  "\<not> type_eq (promoteTypes i8_ty u8_ty) (promoteTypes u8_ty i8_ty)"
  by (simp add: promoteTypes_def type_eq_def isSimilarTo_def isFloatingPoint_def
      isInteger_def size_of_def prim_ty_defs)

text \<open>
  C5 (amended).  \<open>promote(a, b) == promote(b, a)\<close>, equality comparing names, for every
  pair of types in which types of the same kind have the same name, except for two integer
  types of the same byte width and different kinds.
\<close>

theorem promote_commutative:
  assumes "ty_kind a = ty_kind b \<longrightarrow> ty_name a = ty_name b"
    and "\<not> (isInteger a \<and> isInteger b \<and> ty_kind a \<noteq> ty_kind b \<and> size_of a = size_of b)"
  shows "type_eq (promoteTypes a b) (promoteTypes b a)"
proof (cases "ty_kind a = ty_kind b")
  case True
  with assms(1) show ?thesis
    by (simp add: promoteTypes_def isSimilarTo_def type_eq_def)
next
  case False
  then have ns: "\<not> isSimilarTo a b" "\<not> isSimilarTo b a"
    by (auto simp: isSimilarTo_def)
  show ?thesis
  proof (cases "isFloatingPoint a")
    case fa: True
    then have nia: "\<not> isInteger a" using int_not_float by blast
    show ?thesis
    proof (cases "isFloatingPoint b")
      case fb: True
      then have nib: "\<not> isInteger b" using int_not_float by blast
      from fa fb False have "size_of a \<noteq> size_of b" by (rule float_sizes_differ)
      then show ?thesis using ns fa fb by (simp add: promoteTypes_def type_eq_def)
    next
      case nfb: False
      then show ?thesis using ns fa nia by (simp add: promoteTypes_def type_eq_def)
    qed
  next
    case nfa: False
    show ?thesis
    proof (cases "isFloatingPoint b")
      case fb: True
      then have nib: "\<not> isInteger b" using int_not_float by blast
      then show ?thesis using ns nfa fb by (simp add: promoteTypes_def type_eq_def)
    next
      case nfb: False
      show ?thesis
      proof (cases "isInteger a \<and> isInteger b")
        case True
        with False assms(2) have "size_of a \<noteq> size_of b" by simp
        then show ?thesis using ns nfa nfb True by (simp add: promoteTypes_def type_eq_def)
      next
        case False
        then show ?thesis using ns nfa nfb by (auto simp add: promoteTypes_def type_eq_def)
      qed
    qed
  qed
qed

theorem promote_commutative_witness:
  "type_eq (promoteTypes i16_ty f32_ty) (promoteTypes f32_ty i16_ty) \<and>
   promoteTypes i16_ty f32_ty = f32_ty \<and> promoteTypes f32_ty i16_ty = f32_ty"
proof -
  have h1: "ty_kind i16_ty = ty_kind f32_ty \<longrightarrow> ty_name i16_ty = ty_name f32_ty"
    by (simp add: prim_ty_defs)
  have h2: "\<not> (isInteger i16_ty \<and> isInteger f32_ty \<and> ty_kind i16_ty \<noteq> ty_kind f32_ty \<and>
      size_of i16_ty = size_of f32_ty)"
    by (simp add: prim_ty_defs isInteger_def)
  have h3: "promoteTypes i16_ty f32_ty = f32_ty"
    by (simp add: promoteTypes_def isSimilarTo_def isFloatingPoint_def isInteger_def
        prim_ty_defs)
  have h4: "promoteTypes f32_ty i16_ty = f32_ty"
    by (simp add: promoteTypes_def isSimilarTo_def isFloatingPoint_def isInteger_def
        prim_ty_defs)
  from h3 h4 promote_commutative [OF h1 h2] show ?thesis by simp
qed

section \<open>Verified properties: lexer\<close>


lemma peek_keeps:
  "Lexer_peek l = (c, l1) \<Longrightarrow> source l1 = source l \<and> current l1 = current l"
  by (auto simp: Lexer_peek_def Let_def split: if_splits)




lemma log_keeps [simp]:
  "source (Lexer_log e l) = source l" "current (Lexer_log e l) = current l"
  by (simp_all add: Lexer_log_def)

lemma advance_source [simp]: "source (snd (Lexer_advance l)) = source l"
  by (auto simp: Lexer_advance_def Lexer_peek_def Let_def)



lemma take_source [simp]: "source (Lexer_take p l) = source l"
proof (induction p l rule: Lexer_take.induct)
  case (1 predicate l)
  obtain c l1 where pk: "Lexer_peek l = (c, l1)" by (cases "Lexer_peek l")
  show ?case
  proof (cases "predicate c \<and> \<not> Lexer_isEof l1")
    case True
    with 1 [OF pk [symmetric]] pk peek_keeps [OF pk] show ?thesis
      by (subst Lexer_take.simps) simp
  next
    case False
    with pk peek_keeps [OF pk] show ?thesis
      by (subst Lexer_take.simps) auto
  qed
qed



lemma strloop_source [simp]: "source (lexString_loop l) = source l"
proof (induction l rule: lexString_loop.induct)
  case (1 l)
  obtain c l1 where pk: "Lexer_peek l = (c, l1)" by (cases "Lexer_peek l")
  show ?case
  proof (cases "c \<noteq> CHR 0x22 \<and> \<not> Lexer_isEof l1")
    case True
    with 1 [OF pk [symmetric]] pk peek_keeps [OF pk] show ?thesis
      by (subst lexString_loop.simps) simp
  next
    case False
    with pk peek_keeps [OF pk] show ?thesis
      by (subst lexString_loop.simps) auto
  qed
qed





lemma eof_keeps: "source l1 = source l \<Longrightarrow> current l1 = current l \<Longrightarrow>
  Lexer_isEof l1 = Lexer_isEof l"
  by (simp add: Lexer_isEof_def)






lemma content_source [simp]: "source (lexCharacter_content l) = source l"
  by (auto simp: lexCharacter_content_def split: prod.splits dest!: peek_keeps)


lemma closing_source [simp]: "source (lexCharacter_closing l) = source l"
  by (auto simp: lexCharacter_closing_def split: prod.splits dest!: peek_keeps)





subsection \<open>Coherence of the caches, and where \<open>next\<close> stops\<close>




lemma log_coherent [simp]: "coherent (Lexer_log e l) = coherent l"
  by (simp add: coherent_def Lexer_log_def)

lemma ignore_coherent [simp]: "coherent (Lexer_ignore l) = coherent l"
  by (simp add: coherent_def Lexer_ignore_def)



































text \<open>
  C9.  Lexing \<open>"unterminated\<close> yields a \<open>String\<close> token whose lexeme is the whole input
  and whose span runs from the opening quote (index 0) to the end of the input (index 13),
  then the \<open>Eof\<close> token; exactly one diagnostic is logged, the Error
  "Unterminated string literal".
\<close>

theorem lex_unterminated_string:
  "map_option (\<lambda>(tokens, l). (tokens, logged l))
     (Lexer_lex (new_Lexer (CHR 0x22 # ''unterminated'')) (CHR 0x22 # ''unterminated'')) =
   Some
     ([mkToken TokString (CHR 0x22 # ''unterminated'') (mkLocus 1 1 0) (mkLocus 1 14 13),
       mkToken TokEof [] (mkLocus 1 14 13) (mkLocus 1 14 13)],
      [mkError Error ''Unterminated string literal'' (mkLocus 1 1 0) (mkLocus 1 1 0)])"
  by code_simp


section \<open>Verified properties: parser\<close>

text \<open>
  C8.  Parsing \<open>a + b * c - d / e;\<close> yields exactly one top-level statement, an
  \<open>ExpressionStatement\<close> whose root is the Binary \<open>-\<close>; its left child is the Binary
  \<open>+\<close> of \<open>a\<close> and the Binary \<open>*\<close> of \<open>b\<close> and \<open>c\<close>, its right child the Binary
  \<open>/\<close> of \<open>d\<close> and \<open>e\<close>; nothing is logged.
\<close>

theorem parse_precedence:
  "map_sum id (\<lambda>(program, p). (statements program, parser_log p))
     (parse 10 ''a + b * c - d / e;'') =
   Inr ([ExpressionStatement (col 0) (col 18)
          (BinaryExpression (col 0) (col 17)
            (BinaryExpression (col 0) (col 9)
              (IdentifierExpression (col 0) (col 1) ''a'')
              ''+''
              (BinaryExpression (col 4) (col 9)
                (IdentifierExpression (col 4) (col 5) ''b'')
                ''*''
                (IdentifierExpression (col 8) (col 9) ''c'')))
            ''-''
            (BinaryExpression (col 12) (col 17)
              (IdentifierExpression (col 12) (col 13) ''d'')
              ''/''
              (IdentifierExpression (col 16) (col 17) ''e'')))],
        [])"
  by code_simp

lemma expression_statement_at_eof:
  assumes "expr p = Inr (Some e, p1)" and "Parser_isEof p1"
  shows "parseExpressionStatement expr p = Inl NullDereference"
  using assms
  by (simp add: parseExpressionStatement_def andThen_def expectValue_def deref_def)

text \<open>
  C7 (the code fails it).  On the source \<open>a\<close> the expression statement has no
  terminating semicolon; \<open>expectValue\<close> returns the null pointer at the end of the
  input, and \<open>parseExpressionStatement\<close> dereferences it.
\<close>

theorem parse_missing_semicolon_null_dereference:
  "parse 10 ''a'' = Inl NullDereference"
  by code_simp

subsection \<open>The switch conditional\<close>

text \<open>
  At the closing brace, or at the end of the input, the case loop stops and returns the
  cases it has so far.
\<close>

lemma caseLoop_at_close:
  assumes "Parser_isEof p \<or> checkValue ''}'' p"
  shows "caseLoop (Suc fuel) stmt expr cases p = Inr (cases, p)"
  using assms by auto

text \<open>
  The case loop only appends to its list, and every branch it appends ends where the
  block it has parsed for that branch ends.
\<close>

lemma caseLoop_extends:
  "caseLoop fuel stmt expr cases p = Inr (cs, p') \<Longrightarrow>
     \<exists>new. cs = cases @ new \<and> list_all branch_ok new"
proof (induction fuel arbitrary: cases p)
  case 0
  then show ?case by simp
next
  case (Suc fuel)
  show ?case
  proof (cases "\<not> Parser_isEof p \<and> \<not> checkValue ''}'' p")
    case False
    with Suc.prems show ?thesis by auto
  next
    case True
    show ?thesis
    proof (cases "fst (matchValue ''default'' p)")
      case d: True
      with True Suc.prems obtain b p1 where
        "parseBlock fuel stmt (snd (matchValue ''default'' p)) = Inr (b, p1)"
        "caseLoop fuel stmt expr (cases @ [Conditional (block_start b) (block_end b) None b]) p1
          = Inr (cs, p')"
        by (auto simp: andThen_def split: sum.splits)
      from Suc.IH [OF this(2)] show ?thesis by auto
    next
      case d: False
      with True Suc.prems obtain c b p2 where
        "caseLoop fuel stmt expr (cases @ [Conditional (expr_start c) (block_end b) (Some c) b]) p2
          = Inr (cs, p')"
        by (auto simp: andThen_def deref_def split: sum.splits option.splits)
      from Suc.IH [OF this] show ?thesis by auto
    qed
  qed
qed

text \<open>
  \<open>parseSwitch\<close> returns a node exactly when the switch expression is parsed and is not
  null and the case loop returns a list that is not empty; the node then holds that very
  list, and its span ends where the last branch of the list ends.
\<close>

lemma parseSwitch_node:
  "parseSwitch fuel stmt expr p = Inr (node, p') \<longleftrightarrow>
    (\<exists>x p1 cases p2.
       expr (snd (expectValue ''switch'' p)) = Inr (Some x, p1) \<and>
       caseLoop fuel stmt expr [] (snd (expectValue ''{'' p1)) = Inr (cases, p2) \<and>
       cases \<noteq> [] \<and>
       node = SwitchConditional (expr_start x) (cond_end (last cases)) x cases \<and>
       p' = snd (expectValue ''}'' p2))"
  by (auto simp: parseSwitch_def andThen_def deref_def Let_def
      split: sum.splits prod.splits option.splits if_splits)

text \<open>
  On \<open>switch x { case 1 { } default { a; } }\<close> the node holds the two branches, which
  end at indices 21 and 36, and its own span ends at index 36.
\<close>

lemma parse_switch_two_cases:
  "map_sum id (\<lambda>(program, p). (statements program, parser_log p))
     (parse 10 ''switch x { case 1 { } default { a; } }'') =
   Inr ([ConditionalStmt
          (SwitchConditional (col 7) (col 36) (IdentifierExpression (col 7) (col 8) ''x'')
            [Conditional (col 16) (col 21)
               (Some (LiteralExpression (col 16) (col 17) ''1'' LitInteger))
               (BlockStatement (col 18) (col 21) []),
             Conditional (col 30) (col 36) None
               (BlockStatement (col 30) (col 36)
                 [ExpressionStatement (col 32) (col 34)
                    (IdentifierExpression (col 32) (col 33) ''a'')])])],
        [])"
  by code_simp

text \<open>
  When the token after the opening brace is the closing brace (or the input ends there),
  no case is parsed and \<open>parseSwitch\<close> returns no node, whatever the fuel: with the
  switch expression present, the result is the read of \<open>back()\<close> on the empty vector.
\<close>

lemma parseSwitch_no_case:
  assumes "expr (snd (expectValue ''switch'' p)) = Inr (x, p1)"
    and "Parser_isEof (snd (expectValue ''{'' p1)) \<or> checkValue ''}'' (snd (expectValue ''{'' p1))"
  shows "parseSwitch fuel stmt expr p \<in>
    {Inl OutOfFuel, Inl NullDereference, Inl BackOfEmptyVector}"
    and "x \<noteq> None \<Longrightarrow> parseSwitch (Suc fuel) stmt expr p = Inl BackOfEmptyVector"
proof -
  show "parseSwitch fuel stmt expr p \<in>
    {Inl OutOfFuel, Inl NullDereference, Inl BackOfEmptyVector}"
  proof (cases fuel)
    case 0
    with assms(1) show ?thesis by (simp add: parseSwitch_def andThen_def)
  next
    case (Suc n)
    with assms caseLoop_at_close [OF assms(2)] show ?thesis
      by (auto simp: parseSwitch_def andThen_def deref_def Let_def split: option.splits)
  qed
  show "x \<noteq> None \<Longrightarrow> parseSwitch (Suc fuel) stmt expr p = Inl BackOfEmptyVector"
    using assms caseLoop_at_close [OF assms(2)]
    by (auto simp: parseSwitch_def andThen_def deref_def Let_def split: option.splits)
qed

text \<open>
  C6 (the code fails it).  \<open>switch x { }\<close> is a switch statement of the grammar, with an
  empty sequence of cases.  \<open>parseSwitch\<close> parses it to the closing brace and then
  reads \<open>cases.back()->end\<close> on the empty vector: there is no last case branch, the
  read is undefined, and no \<open>SwitchConditional\<close> node results.
\<close>

theorem parse_empty_switch_faults:
  "parse 10 ''switch x { }'' = Inl BackOfEmptyVector"
  by code_simp


section \<open>Verified properties: analyzer\<close>

lemma push_error_scope [simp]: "current_scope (push_error msg s e a) = current_scope a"
  by (simp add: push_error_def)

lemma push_error_errors [simp]:
  "errors (push_error msg s e a) = errors a @ [mkError Error msg s e]"
  by (simp add: push_error_def)

lemma inferIdentifier_total:
  assumes "current_scope a \<noteq> []"
  shows "\<exists>t a1. inferIdentifier a s e name = Inr (t, a1) \<and> current_scope a1 = current_scope a"
  using assms by (simp add: inferIdentifier_def Let_def)

lemma infer_type_expression_total:
  assumes "current_scope a \<noteq> []" and "as_identifier type = Some name"
  shows "\<exists>t a1. inferExpression a type = Inr (t, a1) \<and> current_scope a1 = current_scope a"
  using assms inferIdentifier_total [OF assms(1)]
  by (cases type) simp_all

lemma declareVariable_total:
  assumes "current_scope a \<noteq> []" and "as_identifier (vd_type decl) = Some name"
  shows "\<exists>var a1. declareVariable a decl = Inr (var, a1)"
proof -
  from infer_type_expression_total [OF assms] obtain t a1 where
    i: "inferExpression a (vd_type decl) = Inr (t, a1)" and
    s: "current_scope a1 = current_scope a" by blast
  with assms(1) show ?thesis
    by (cases "current_scope a") (simp_all add: declareVariable_def andThen_def Let_def addVariable_def)
qed

lemma infer_empty_array: "inferExpression a (ArrayExpression s e []) = Inr (none_ty, a)"
  by simp

lemma none_ty_invalid: "\<not> isValid none_ty"
  by (simp add: isValid_def none_ty_def mkType_def)

text \<open>
  C10 (as stated, refuted).  The fields of a record or class and the parameters of a
  function are variable declarations too, and the parser gives them initializers; the
  analyzer declares them from their names and types and never looks at the initializer.
  Each of the three sources below holds one such declaration whose initializer is the
  empty array literal, and each is analysed without any diagnostic.
\<close>

theorem empty_array_member_initializer_counterexample:
  "map_sum id (\<lambda>(program, p). map member_initializers (statements program))
     (parse 10 ''rec R { x: i32 = []; }'') =
     Inr [[Some (ArrayExpression (col 18) (col 19) [])]] \<and>
   map_sum id (\<lambda>a. map description (errors a)) (compileSource 10 ''rec R { x: i32 = []; }'') =
     Inr [] \<and>
   map_sum id (\<lambda>(program, p). map member_initializers (statements program))
     (parse 10 ''fn f(a: i32 = []) { }'') =
     Inr [[Some (ArrayExpression (col 15) (col 16) [])]] \<and>
   map_sum id (\<lambda>a. map description (errors a)) (compileSource 10 ''fn f(a: i32 = []) { }'') =
     Inr [] \<and>
   map_sum id (\<lambda>(program, p). map member_initializers (statements program))
     (parse 10 ''cls C { pub x: i32 = []; }'') =
     Inr [[Some (ArrayExpression (col 22) (col 23) [])]] \<and>
   map_sum id (\<lambda>a. map description (errors a))
     (compileSource 10 ''cls C { pub x: i32 = []; }'') =
     Inr []"
  by code_simp

text \<open>
  C10 (amended).  Let the initializer of a variable declaration be the empty array
  literal.  Its inferred type is the invalid type \<open>none\<close>.  A variable declaration that
  stands as a statement (a \<open>let\<close>) is analysed by \<open>analyzeVariableDeclaration\<close>;
  whenever that analysis returns, the last diagnostic it has pushed is the Error
  "Invalid type for variable initializer" at the span of the literal; and it does return
  whenever there is a current scope and the declared type is an identifier or array type
  expression, as in every declaration the parser builds.
\<close>

theorem empty_array_initializer_invalid:
  assumes "initializer decl = Some (ArrayExpression s e [])"
  shows "inferExpression a0 (ArrayExpression s e []) = Inr (none_ty, a0) \<and> \<not> isValid none_ty \<and>
    analyzeStatement a (DeclarationStmt (VariableDecl decl)) =
      analyzeVariableDeclaration a decl \<and>
    (\<forall>a'. analyzeVariableDeclaration a decl = Inr a' \<longrightarrow>
       errors a' \<noteq> [] \<and>
       last (errors a') =
         mkError Error
           (''Invalid type for variable initializer: '' @ id_name (vd_identifier decl)) s e) \<and>
    (current_scope a \<noteq> [] \<and> as_identifier (vd_type decl) \<noteq> None \<longrightarrow>
       (\<exists>a'. analyzeVariableDeclaration a decl = Inr a'))"
proof (intro conjI allI impI)
  show "inferExpression a0 (ArrayExpression s e []) = Inr (none_ty, a0)" by simp
  show "\<not> isValid none_ty" by (rule none_ty_invalid)
  show "analyzeStatement a (DeclarationStmt (VariableDecl decl)) =
      analyzeVariableDeclaration a decl" by simp
next
  fix a'
  assume r: "analyzeVariableDeclaration a decl = Inr a'"
  then obtain var a1 where d: "declareVariable a decl = Inr (var, a1)"
    by (cases "declareVariable a decl")
       (auto simp: analyzeVariableDeclaration_def andThen_def)
  define a2 where "a2 =
    (if \<not> Variable_isValid var
     then push_error (''Unable to declare variable: '' @ id_name (vd_identifier decl))
            (vd_start decl) (vd_end decl) a1
     else a1)"
  from r d assms have a': "a' = push_error
      (''Invalid type for variable initializer: '' @ id_name (vd_identifier decl)) s e a2"
    by (simp add: analyzeVariableDeclaration_def andThen_def Let_def a2_def none_ty_invalid)
  then show "errors a' \<noteq> []" by simp
  from a' show "last (errors a') =
    mkError Error
      (''Invalid type for variable initializer: '' @ id_name (vd_identifier decl)) s e"
    by simp
next
  assume h: "current_scope a \<noteq> [] \<and> as_identifier (vd_type decl) \<noteq> None"
  then obtain name where "as_identifier (vd_type decl) = Some name" by auto
  with h declareVariable_total [of a decl name] obtain var a1 where
    d: "declareVariable a decl = Inr (var, a1)" by blast
  with assms show "\<exists>a'. analyzeVariableDeclaration a decl = Inr a'"
    by (simp add: analyzeVariableDeclaration_def andThen_def Let_def none_ty_invalid)
qed

theorem empty_array_initializer_invalid_witness:
  "map_sum id (\<lambda>a. map description (errors a)) (compileSource 10 ''let x: i32 = [];'') =
     Inr [''Invalid type for variable initializer: x''] \<and>
   map_sum id (\<lambda>a. map description (errors a))
     (compileSource 10 ''fn f() { let x: i32 = []; }'') =
     Inr [''Invalid type for variable initializer: x''] \<and>
   (\<exists>a'. analyzeVariableDeclaration (enterScope ''global'' SkGlobal new_Analyzer)
           (mkVariableDeclaration (col 4) (col 15) (mkIdent (col 4) (col 5) ''x'')
              (IdentifierExpression (col 7) (col 10) ''i32'')
              (mkModifierStatement (col 4) (col 4) Private Modifier_None)
              (Some (ArrayExpression (col 14) (col 15) []))) = Inr a' \<and>
         last (errors a') =
           mkError Error ''Invalid type for variable initializer: x'' (col 14) (col 15))"
proof -
  let ?a = "enterScope ''global'' SkGlobal new_Analyzer"
  let ?d = "mkVariableDeclaration (col 4) (col 15) (mkIdent (col 4) (col 5) ''x'')
              (IdentifierExpression (col 7) (col 10) ''i32'')
              (mkModifierStatement (col 4) (col 4) Private Modifier_None)
              (Some (ArrayExpression (col 14) (col 15) []))"
  have i: "initializer ?d = Some (ArrayExpression (col 14) (col 15) [])"
    by (simp add: mkVariableDeclaration_def)
  have sc: "current_scope ?a \<noteq> [] \<and> as_identifier (vd_type ?d) \<noteq> None"
    by (simp add: enterScope_def new_Analyzer_def mkVariableDeclaration_def)
  have n: "id_name (vd_identifier ?d) = ''x''"
    by (simp add: mkVariableDeclaration_def mkIdent_def)
  have c: "map_sum id (\<lambda>a. map description (errors a)) (compileSource 10 ''let x: i32 = [];'') =
     Inr [''Invalid type for variable initializer: x'']"
    by code_simp
  have c2: "map_sum id (\<lambda>a. map description (errors a))
     (compileSource 10 ''fn f() { let x: i32 = []; }'') =
     Inr [''Invalid type for variable initializer: x'']"
    by code_simp
  note t = empty_array_initializer_invalid [OF i, of ?a ?a]
  from t sc obtain a' where r: "analyzeVariableDeclaration ?a ?d = Inr a'"
    by blast
  from t r have "last (errors a') =
      mkError Error
        (''Invalid type for variable initializer: '' @ id_name (vd_identifier ?d))
        (col 14) (col 15)"
    by blast
  then have l: "last (errors a') =
      mkError Error ''Invalid type for variable initializer: x'' (col 14) (col 15)"
    by (simp only: n append.simps)
  from r l have "\<exists>a'. analyzeVariableDeclaration ?a ?d = Inr a' \<and>
      last (errors a') =
        mkError Error ''Invalid type for variable initializer: x'' (col 14) (col 15)"
    by blast
  with c c2 show ?thesis by (intro conjI)
qed

text \<open>
  C1 (the code fails it).  \<open>analyzeVariableDeclaration\<close> calls
  \<open>canAssignType(init_type, var.type)\<close>: the initializer's type is passed as \<open>to\<close>
  and the declared type as \<open>from\<close>.  For \<open>let x: f64 = 5;\<close> the claimed check
  \<open>canAssign(f64, i64)\<close> succeeds, yet the analyzer reports a type mismatch; for
  \<open>let x: i64 = 1.5;\<close> the claimed check \<open>canAssign(i64, f64)\<close> fails, yet the analyzer
  reports nothing.
\<close>

theorem initializer_check_reversed:
  "canAssignType f64_ty i64_ty \<and>
   map_sum id (\<lambda>a. map description (errors a)) (compileSource 10 ''let x: f64 = 5;'') =
     Inr [''Type mismatch in variable initializer: x''] \<and>
   \<not> canAssignType i64_ty f64_ty \<and>
   map_sum id (\<lambda>a. map description (errors a)) (compileSource 10 ''let x: i64 = 1.5;'') =
     Inr []"
  by code_simp

text \<open>
  C2 (the code fails it).  The enumerators of \<open>ScopeKind\<close> have the values 0 to 5, so
  \<open>Block | Function\<close> is 3, the value of \<open>Loop\<close>: inside the body block of a function
  that contains no loop, \<open>hasFlag(kind, Loop)\<close> holds, and \<open>break\<close> and \<open>continue\<close>
  pass without a diagnostic.
\<close>

theorem break_outside_loop_accepted:
  "hasFlag (underlying SkFunction OR underlying SkBlock) (underlying SkLoop) \<and>
   map_sum id (\<lambda>a. map description (errors a))
     (compileSource 10 ''fn f() { break; continue; }'') = Inr []"
  by code_simp

end
